theory Spec2Isabelle
  imports Complex_Main
begin

section \<open>Property lookup on plain objects\<close>

text \<open>
  The tables of the program (\<open>noteFrequencies\<close>, \<open>presets\<close>, \<open>projections\<close>) are plain
  JavaScript objects, so \<open>table[key]\<close> finds an own property, or else a member inherited
  from \<open>Object.prototype\<close>, or else nothing. An inherited member is a function or an
  object: it is truthy, it is no number, and it has none of the methods of the entries of
  the table.
\<close>

definition object_prototype_members :: "string list" where
  "object_prototype_members =
     [''constructor'', ''__proto__'', ''hasOwnProperty'', ''isPrototypeOf'',
      ''propertyIsEnumerable'', ''toLocaleString'', ''toString'', ''valueOf'',
      ''__defineGetter__'', ''__defineSetter__'', ''__lookupGetter__'', ''__lookupSetter__'']"

datatype 'a lookup = Own 'a | Inherited | Undefined

definition get_property :: "(string \<Rightarrow> 'a option) \<Rightarrow> string \<Rightarrow> 'a lookup" where
  "get_property own key =
     (case own key of
        Some v \<Rightarrow> Own v
      | None \<Rightarrow> if key \<in> set object_prototype_members then Inherited else Undefined)"

text \<open>The exception of the language that the modelled code can raise.\<close>

datatype js_error = TypeError

section \<open>Synthesizer parameters (sound/sound-module.js, \<open>audioState.parameters\<close>)\<close>

text \<open>
  The parameter structure that presets are merged into. Numbers are JavaScript doubles in
  the source; they are modelled as reals (exact arithmetic, no NaN, no rounding), so a
  parameter that the source could leave \<open>undefined\<close> is a mandatory field here, except for
  the effect groups, which the mapper reads through optional chaining.
\<close>

record oscillator_params =
  osc_type :: string
  osc_gain :: real

record filter_params =
  filter_type :: string
  filter_frequency :: real
  filter_Q :: real

record envelope_params =
  env_attack :: real
  env_release :: real

record delay_params =
  delay_active :: bool
  delay_time :: real
  delay_feedback :: real

record reverb_params =
  reverb_active :: bool
  reverb_decay :: real
  reverb_wet :: real

record arpeggiator_params =
  arpp_active :: bool
  arpp_rate :: real
  arpp_pattern :: "int list"

record glitch_params =
  glitch_active :: bool

record effects_params =
  fx_delay :: "delay_params option"
  fx_reverb :: "reverb_params option"
  fx_glitch :: "glitch_params option"
  fx_arpeggiator :: "arpeggiator_params option"

record sound_params =
  sp_oscillator :: oscillator_params
  sp_filter :: filter_params
  sp_envelope :: envelope_params
  sp_effects :: effects_params

section \<open>Audio-to-visual mapper (js/ui-interactions.js, \<open>mapSoundToVisuals\<close>)\<close>

record audio_levels =
  lv_bass :: real
  lv_mid :: real
  lv_high :: real
  lv_frequency :: "real option"

text \<open>The two fields of the module-level \<open>uiState\<close> that the mapper reads.\<close>

record ui_state =
  glitchEnabled :: bool
  xyPad_active :: bool

record visuals =
  morphFactor :: real
  glitchIntensity :: real
  rotationSpeed :: real
  dimension :: real
  gridDensity :: real
  projectionMethod :: string
  xyPadActive :: real
  currentNoteFrequency :: real

text \<open>\<open>function clamp(value, min, max) { return Math.max(min, Math.min(max, value)); }\<close>\<close>

definition clamp :: "real \<Rightarrow> real \<Rightarrow> real \<Rightarrow> real" where
  "clamp v mn mx = max mn (min mx v)"

text \<open>
  \<open>const arp = effects.arpeggiator || {}\<close>: a missing group reads as inactive, and its rate
  is then never used. \<open>effects.delay?.active\<close> and \<open>effects.delay?.feedback > 0.65\<close> are
  falsy when the group is missing.
\<close>

definition arp_is_active :: "effects_params \<Rightarrow> bool" where
  "arp_is_active fx = (case fx_arpeggiator fx of None \<Rightarrow> False | Some a \<Rightarrow> arpp_active a)"

definition arp_rate_of :: "effects_params \<Rightarrow> real" where
  "arp_rate_of fx = (case fx_arpeggiator fx of None \<Rightarrow> 0 | Some a \<Rightarrow> arpp_rate a)"

definition delayActive :: "effects_params \<Rightarrow> bool" where
  "delayActive fx = (case fx_delay fx of None \<Rightarrow> False | Some d \<Rightarrow> delay_active d)"

definition reverbActive :: "effects_params \<Rightarrow> bool" where
  "reverbActive fx = (case fx_reverb fx of None \<Rightarrow> False | Some r \<Rightarrow> reverb_active r)"

definition highFeedback :: "effects_params \<Rightarrow> bool" where
  "highFeedback fx = (case fx_delay fx of None \<Rightarrow> False | Some d \<Rightarrow> delay_feedback d > 0.65)"

definition highWet :: "effects_params \<Rightarrow> bool" where
  "highWet fx = (case fx_reverb fx of None \<Rightarrow> False | Some r \<Rightarrow> reverb_wet r > 0.75)"

definition mapSoundToVisuals :: "ui_state \<Rightarrow> sound_params \<Rightarrow> audio_levels \<Rightarrow> visuals" where
  "mapSoundToVisuals ui soundParams audioLevels =
     (let effects = sp_effects soundParams;
          envelope = sp_envelope soundParams;
          filter_p = sp_filter soundParams;
          bass = lv_bass audioLevels; mid = lv_mid audioLevels; high = lv_high audioLevels
      in \<lparr> morphFactor =
             clamp (0.1 + (filter_Q filter_p / 15.0) * 0.6 + (env_attack envelope / 2.0) * 0.3
                    + mid * 0.2) 0.0 1.0,
           glitchIntensity =
             (if glitchEnabled ui
              then clamp (0.05 + high * 0.6 + (filter_Q filter_p / 10.0) * 0.3) 0.0 1.0
              else 0.0),
           rotationSpeed =
             clamp (0.1 + mid * 0.5 + high * 0.3
                    + (if arp_is_active effects then arp_rate_of effects * 0.04 else 0)) 0.0 2.0,
           dimension =
             clamp (3.0 + bass * 0.8 + (env_release envelope / 3.0) * 0.5) 3.0 4.0,
           gridDensity = clamp (8.0 + bass * 8.0 - mid * 2.0) 5.0 20.0,
           projectionMethod =
             (if delayActive effects \<and> highFeedback effects then ''stereographic''
              else if reverbActive effects \<and> highWet effects then ''perspective''
              else if arp_is_active effects then ''stereographic''
              else ''orthographic''),
           xyPadActive = (if xyPad_active ui then 1.0 else 0.0),
           currentNoteFrequency =
             (case lv_frequency audioLevels of
                None \<Rightarrow> 440.0
              | Some f \<Rightarrow> if f = 0 then 440.0 else f) \<rparr>)"

subsection \<open>The reference definition of the specification\<close>

text \<open>
  The mapper as the specification words it, over the plain values it names:
  \<open>clamp(x, lo, hi)\<close> restricts \<open>x\<close> to the interval, the five numeric outputs are the
  stated affine expressions, and the projection name is chosen by a priority chain in
  which a feedback or wet level is high when it exceeds its threshold.
\<close>

definition spec_clamp :: "real \<Rightarrow> real \<Rightarrow> real \<Rightarrow> real" where
  "spec_clamp x lo hi = (if x < lo then lo else if hi < x then hi else x)"

definition spec_morphFactor :: "real \<Rightarrow> real \<Rightarrow> real \<Rightarrow> real" where
  "spec_morphFactor resonance att mid =
     spec_clamp (0.1 + resonance / 15 * 0.6 + att / 2 * 0.3 + mid * 0.2) 0 1"

definition spec_glitchIntensity :: "bool \<Rightarrow> real \<Rightarrow> real \<Rightarrow> real" where
  "spec_glitchIntensity toggle high resonance =
     (if toggle then spec_clamp (0.05 + high * 0.6 + resonance / 10 * 0.3) 0 1 else 0)"

definition spec_rotationSpeed :: "real \<Rightarrow> real \<Rightarrow> bool \<Rightarrow> real \<Rightarrow> real" where
  "spec_rotationSpeed mid high arp_on rate =
     spec_clamp (0.1 + mid * 0.5 + high * 0.3 + (if arp_on then rate * 0.04 else 0)) 0 2"

definition spec_dimension :: "real \<Rightarrow> real \<Rightarrow> real" where
  "spec_dimension bass rel = spec_clamp (3 + bass * 0.8 + rel / 3 * 0.5) 3 4"

definition spec_gridDensity :: "real \<Rightarrow> real \<Rightarrow> real" where
  "spec_gridDensity bass mid = spec_clamp (8 + bass * 8 - mid * 2) 5 20"

definition spec_projectionName ::
  "real \<Rightarrow> real \<Rightarrow> bool \<Rightarrow> real \<Rightarrow> bool \<Rightarrow> real \<Rightarrow> bool \<Rightarrow> string" where
  "spec_projectionName feedback_threshold wet_threshold delay_on feedback reverb_on wet arp_on =
     (if delay_on \<and> feedback > feedback_threshold then ''stereographic''
      else if reverb_on \<and> wet > wet_threshold then ''perspective''
      else if arp_on then ''stereographic''
      else ''orthographic'')"

section \<open>The synthesis engine (sound/sound-module.js, class \<open>SoundModule\<close>)\<close>

subsection \<open>Notes\<close>

text \<open>
  \<open>this.noteFrequencies\<close>: the own properties of the table of playable notes, and the
  test \<open>!this.noteFrequencies[note]\<close> that \<open>startNote\<close> and \<open>_arpStep\<close> apply to a note
  name.
\<close>

definition noteFrequencies :: "string \<Rightarrow> real option" where
  "noteFrequencies =
     map_of [(''C4'', 261.63), (''C#4'', 277.18), (''D4'', 293.66), (''D#4'', 311.13),
             (''E4'', 329.63), (''F4'', 349.23), (''F#4'', 369.99), (''G4'', 392.00),
             (''G#4'', 415.30), (''A4'', 440.00), (''A#4'', 466.16), (''B4'', 493.88),
             (''C5'', 523.25)]"

definition note_truthy :: "string \<Rightarrow> bool" where
  "note_truthy note =
     (case get_property noteFrequencies note of
        Own frequency \<Rightarrow> frequency \<noteq> 0
      | Inherited \<Rightarrow> True
      | Undefined \<Rightarrow> False)"

text \<open>\<open>this.semitoneRatio = Math.pow(2, 1/12)\<close>\<close>

definition semitoneRatio :: real where
  "semitoneRatio = 2 powr (1 / 12)"

subsection \<open>The audio graph and the platform\<close>

text \<open>
  A voice is the oscillator, filter and envelope gain node of one sounding note; the source
  creates, stores and clears the three together. Its gain node is always connected to the
  master gain; \<open>v_out\<close> lists its connections to the two effect buses, one entry per
  \<open>connect\<close> call that no \<open>disconnect\<close> has removed.
\<close>

datatype bus = DelayBus | ReverbBus

record voice =
  v_id :: nat
  v_frequency :: real
  v_out :: "bus list"

datatype dom_exception = InvalidAccessError

text \<open>
  What the browser decides: whether creating and wiring the nodes of a new voice succeeds
  (the source guards it with try/catch), and whether \<open>AudioNode.disconnect(destination)\<close>
  raises when the node is not connected to the destination. The Web Audio API specifies
  that it raises \<open>InvalidAccessError\<close> (\<open>strict_disconnect = True\<close>); the source wraps the
  calls in one try block "for disconnect errors if nodes aren't connected".
\<close>

record platform =
  nodes_ok :: bool
  strict_disconnect :: bool

definition node_disconnect :: "platform \<Rightarrow> bus \<Rightarrow> bus list \<Rightarrow> dom_exception + bus list" where
  "node_disconnect pf b out =
     (if b \<in> set out then Inr (removeAll b out)
      else if strict_disconnect pf then Inl InvalidAccessError
      else Inr out)"

definition node_connect :: "bus \<Rightarrow> bus list \<Rightarrow> bus list" where
  "node_connect b out = out @ [b]"

subsection \<open>State\<close>

record arp_state =
  arp_active :: bool
  arp_intervalId :: "nat option"
  arp_rate :: real
  arp_pattern :: "int list"
  arp_currentStep :: nat
  arp_baseNote :: "string option"

text \<open>
  \<open>this.audioState\<close>, with the part of the browser it talks to: \<open>ctx_running\<close> is
  \<open>audioContext.state === 'running'\<close>, \<open>delayNode\<close> and \<open>reverbNode\<close> say whether the
  persistent effect nodes exist, \<open>timers\<close> holds the interval timers armed by
  \<open>setInterval\<close> and not yet cleared, each with its period in milliseconds, and
  \<open>next_timer\<close>, \<open>next_voice\<close> number the handles and nodes the browser hands out.
\<close>

record audio_state =
  disposed :: bool
  isInitialized :: bool
  isPlaying :: bool
  ctx_running :: bool
  currentVoice :: "voice option"
  activeNote :: "string option"
  as_currentNoteFrequency :: "real option"
  delayNode :: bool
  reverbNode :: bool
  arp :: arp_state
  parameters :: sound_params
  activePresetName :: string
  timers :: "(nat \<times> real) list"
  next_timer :: nat
  next_voice :: nat

subsection \<open>Effect routing\<close>

text \<open>
  One bus inside the try block of \<open>_connectEffectsToNode\<close>:
  \<open>sourceNode.disconnect(bus); if (active) sourceNode.connect(bus);\<close>
\<close>

definition route_bus :: "platform \<Rightarrow> bus \<Rightarrow> bool \<Rightarrow> bus list \<Rightarrow> dom_exception + bus list" where
  "route_bus pf b act out =
     (case node_disconnect pf b out of
        Inl e \<Rightarrow> Inl e
      | Inr out' \<Rightarrow> Inr (if act then node_connect b out' else out'))"

text \<open>
  \<open>_connectEffectsToNode(sourceNode)\<close>. An exception leaves the try block at once and is
  swallowed by the empty catch: the connections are then as the statements before it left
  them.
\<close>

definition connectEffectsToNode :: "platform \<Rightarrow> audio_state \<Rightarrow> bus list \<Rightarrow> bus list" where
  "connectEffectsToNode pf s out =
     (if \<not> isInitialized s then out
      else
        let effects = sp_effects (parameters s) in
        case (if delayNode s then route_bus pf DelayBus (delayActive effects) out else Inr out) of
          Inl e \<Rightarrow> out
        | Inr out1 \<Rightarrow>
            (case (if reverbNode s then route_bus pf ReverbBus (reverbActive effects) out1
                   else Inr out1) of
               Inl e \<Rightarrow> out1
             | Inr out2 \<Rightarrow> out2))"

subsection \<open>Voices\<close>

definition cleanupCurrentNoteNodes :: "audio_state \<Rightarrow> audio_state" where
  "cleanupCurrentNoteNodes s = s\<lparr>currentVoice := None\<rparr>"

text \<open>
  \<open>_playSustainedNote(note)\<close>. The new gain node is connected to the master gain and then
  routed to the effects; when the browser fails to create or wire the nodes the catch
  block cleans up. For a name inherited from \<open>Object.prototype\<close> the looked-up value is
  no number, \<open>osc.frequency.setValueAtTime\<close> rejects it with a \<open>TypeError\<close>, and the same
  catch block runs. The guard on the audio context and the parameter groups is not
  represented: every caller has checked \<open>isInitialized\<close> or a stored timer handle.
\<close>

definition playSustainedNote :: "platform \<Rightarrow> string \<Rightarrow> audio_state \<Rightarrow> audio_state" where
  "playSustainedNote pf note s =
     (case get_property noteFrequencies note of
        Undefined \<Rightarrow> s
      | Inherited \<Rightarrow>
          (cleanupCurrentNoteNodes s)\<lparr>isPlaying := False, as_currentNoteFrequency := None\<rparr>
      | Own frequency \<Rightarrow>
          if frequency = 0 then s
          else if nodes_ok pf then
            s\<lparr>currentVoice :=
                 Some \<lparr>v_id = next_voice s, v_frequency = frequency,
                       v_out = connectEffectsToNode pf s []\<rparr>,
              isPlaying := True,
              as_currentNoteFrequency := Some frequency,
              next_voice := Suc (next_voice s)\<rparr>
          else
            (cleanupCurrentNoteNodes s)\<lparr>isPlaying := False, as_currentNoteFrequency := None\<rparr>)"

text \<open>
  \<open>_stopSustainedNote(useRelease)\<close> schedules the release ramp, the oscillator stop and a
  cleanup timeout; the fields of \<open>audioState\<close> stay as they are until the timeout runs.
\<close>

definition stopSustainedNote :: "bool \<Rightarrow> audio_state \<Rightarrow> audio_state" where
  "stopSustainedNote useRelease s = s"

text \<open>The cleanup timeout of \<open>_stopSustainedNote\<close> for the voice it was scheduled for.\<close>

definition sustainedCleanupTimeout :: "nat \<Rightarrow> audio_state \<Rightarrow> audio_state" where
  "sustainedCleanupTimeout vid s =
     (if disposed s then s
      else case currentVoice s of
        None \<Rightarrow> s
      | Some v \<Rightarrow> if v_id v = vid then cleanupCurrentNoteNodes s else s)"

text \<open>
  \<open>_playArpNote(frequency)\<close>: the previous step's voice is cut and cleaned up, then the
  voice of this step is created. Of the guard at its head only \<open>!frequency\<close> is
  represented: the audio context and the parameter groups exist whenever \<open>_arpStep\<close>
  runs, because \<open>_startArpeggiator\<close> arms the timer only after its \<open>isInitialized\<close> check.
\<close>

definition playArpNote :: "platform \<Rightarrow> real \<Rightarrow> audio_state \<Rightarrow> audio_state" where
  "playArpNote pf frequency s =
     (if frequency = 0 then s
      else
        let s1 = (if currentVoice s \<noteq> None then cleanupCurrentNoteNodes s else s) in
        if nodes_ok pf then
          s1\<lparr>currentVoice :=
                Some \<lparr>v_id = next_voice s1, v_frequency = frequency,
                      v_out = connectEffectsToNode pf s1 []\<rparr>,
             as_currentNoteFrequency := Some frequency,
             next_voice := Suc (next_voice s1)\<rparr>
        else (cleanupCurrentNoteNodes s1)\<lparr>as_currentNoteFrequency := None\<rparr>)"

subsection \<open>The arpeggiator\<close>

text \<open>\<open>clearInterval(handle)\<close> and \<open>setInterval(callback, period)\<close> of the browser.\<close>

definition clearInterval :: "nat \<Rightarrow> (nat \<times> real) list \<Rightarrow> (nat \<times> real) list" where
  "clearInterval h ts = filter (\<lambda>t. fst t \<noteq> h) ts"

definition setInterval :: "real \<Rightarrow> audio_state \<Rightarrow> nat \<times> audio_state" where
  "setInterval period s =
     (next_timer s, s\<lparr>timers := timers s @ [(next_timer s, period)],
                      next_timer := Suc (next_timer s)\<rparr>)"

text \<open>
  \<open>_stopArpeggiator()\<close>: clears the timer and the handle; the sounding step voice is faded
  and a cleanup timeout is scheduled for it.
\<close>

definition stopArpeggiator :: "audio_state \<Rightarrow> audio_state" where
  "stopArpeggiator s =
     (case arp_intervalId (arp s) of
        None \<Rightarrow> s
      | Some h \<Rightarrow> s\<lparr>timers := clearInterval h (timers s),
                     arp := (arp s)\<lparr>arp_intervalId := None\<rparr>\<rparr>)"

definition arpCleanupTimeout :: "nat \<Rightarrow> audio_state \<Rightarrow> audio_state" where
  "arpCleanupTimeout vid s =
     (if disposed s then s
      else case currentVoice s of
        None \<Rightarrow> s
      | Some v \<Rightarrow>
          if arp_intervalId (arp s) = None \<and> v_id v = vid then cleanupCurrentNoteNodes s
          else s)"

text \<open>The check at the head of \<open>_arpStep\<close>.\<close>

definition arpStateValid :: "audio_state \<Rightarrow> bool" where
  "arpStateValid s =
     (let a = arp s in
      arp_active a \<and> arp_pattern a \<noteq> []
      \<and> (case arp_baseNote a of None \<Rightarrow> False | Some n \<Rightarrow> n \<noteq> [] \<and> note_truthy n))"

text \<open>
  The frequency \<open>_arpStep\<close> computes for the current step, when the state is valid and
  the base note is a note of the table. For a base note inherited from \<open>Object.prototype\<close>
  the product is \<open>NaN\<close>, which is the value \<open>None\<close> here.
\<close>

definition arpStepFrequency :: "audio_state \<Rightarrow> real option" where
  "arpStepFrequency s =
     (let a = arp s in
      if \<not> arp_active a \<or> arp_pattern a = [] then None
      else case arp_baseNote a of
        None \<Rightarrow> None
      | Some n \<Rightarrow>
          (case noteFrequencies n of
             None \<Rightarrow> None
           | Some baseFrequency \<Rightarrow>
               if baseFrequency = 0 then None
               else
                 let semitoneOffset = arp_pattern a ! (arp_currentStep a mod length (arp_pattern a))
                 in Some (baseFrequency * semitoneRatio powr real_of_int semitoneOffset)))"

text \<open>
  \<open>_arpStep()\<close>: an invalid state stops the sequencer; otherwise the step is played and
  the step counter advances. \<open>_playArpNote(NaN)\<close> returns at its guard, \<open>NaN\<close> being falsy.
\<close>

definition arpStep :: "platform \<Rightarrow> audio_state \<Rightarrow> audio_state" where
  "arpStep pf s =
     (if \<not> arpStateValid s then stopArpeggiator s
      else
        let s1 = (case arpStepFrequency s of
                    None \<Rightarrow> s
                  | Some stepFrequency \<Rightarrow> playArpNote pf stepFrequency s)
        in s1\<lparr>arp := (arp s1)\<lparr>arp_currentStep := Suc (arp_currentStep (arp s1))\<rparr>\<rparr>)"

text \<open>
  \<open>_startArpeggiator()\<close>: refuses when not initialized, when a handle is stored or when the
  arpeggiator is off; otherwise plays the first step and arms the timer with period
  \<open>1000 / max(0.1, rate || 8)\<close> milliseconds.
\<close>

definition startArpeggiator :: "platform \<Rightarrow> audio_state \<Rightarrow> audio_state" where
  "startArpeggiator pf s =
     (if \<not> isInitialized s \<or> arp_intervalId (arp s) \<noteq> None \<or> \<not> arp_active (arp s) then s
      else
        let rate = max 0.1 (if arp_rate (arp s) = 0 then 8 else arp_rate (arp s));
            stepTimeMs = 1000.0 / rate;
            s1 = arpStep pf s;
            (h, s2) = setInterval stepTimeMs s1
        in s2\<lparr>arp := (arp s2)\<lparr>arp_intervalId := Some h\<rparr>\<rparr>)"

text \<open>The state after \<open>k\<close> calls of \<open>_arpStep\<close> (the first by \<open>_startArpeggiator\<close>, the rest by the timer).\<close>

fun arpSteps :: "platform \<Rightarrow> nat \<Rightarrow> audio_state \<Rightarrow> audio_state" where
  "arpSteps pf 0 s = s"
| "arpSteps pf (Suc k) s = arpStep pf (arpSteps pf k s)"

subsection \<open>Notes on and off\<close>

text \<open>\<open>startNote(note)\<close>, once the initialization promise has resolved.\<close>

definition startNote :: "platform \<Rightarrow> string \<Rightarrow> audio_state \<Rightarrow> audio_state" where
  "startNote pf note s =
     (if disposed s \<or> \<not> isInitialized s \<or> \<not> note_truthy note then s
      else if \<not> ctx_running s then s
      else
        let s1 = s\<lparr>activeNote := Some note\<rparr> in
        if arp_active (arp s1) then
          (if \<not> isPlaying s1 then
             (startArpeggiator pf
                (s1\<lparr>arp := (arp s1)\<lparr>arp_baseNote := Some note, arp_currentStep := 0\<rparr>\<rparr>))
             \<lparr>isPlaying := True\<rparr>
           else s1\<lparr>arp := (arp s1)\<lparr>arp_baseNote := Some note\<rparr>\<rparr>)
        else playSustainedNote pf note (stopSustainedNote False s1))"

definition stopNote :: "bool \<Rightarrow> audio_state \<Rightarrow> audio_state" where
  "stopNote useRelease s =
     (if disposed s \<or> \<not> isPlaying s then s
      else
        (if arp_active (arp s) \<and> arp_intervalId (arp s) \<noteq> None then stopArpeggiator s
         else if \<not> arp_active (arp s) \<and> currentVoice s \<noteq> None
           then stopSustainedNote useRelease s
         else s)
        \<lparr>isPlaying := False, activeNote := None\<rparr>)"

subsection \<open>Presets\<close>

text \<open>
  A preset names only the parameters it overrides, so each of its fields is optional;
  \<open>applyPresetAudio\<close> merges it over the default structure.
\<close>

record oscillator_preset =
  po_type :: "string option"
  po_gain :: "real option"

record filter_preset =
  pf_type :: "string option"
  pf_frequency :: "real option"
  pf_Q :: "real option"

record envelope_preset =
  pe_attack :: "real option"
  pe_release :: "real option"

record delay_preset =
  pd_active :: "bool option"
  pd_time :: "real option"
  pd_feedback :: "real option"

record reverb_preset =
  pr_active :: "bool option"
  pr_decay :: "real option"
  pr_wet :: "real option"

record glitch_preset =
  pg_active :: "bool option"

record arpeggiator_preset =
  pa_active :: "bool option"
  pa_rate :: "real option"
  pa_pattern :: "int list option"

record effects_preset =
  pfx_delay :: "delay_preset option"
  pfx_reverb :: "reverb_preset option"
  pfx_glitch :: "glitch_preset option"
  pfx_arpeggiator :: "arpeggiator_preset option"

record preset =
  p_oscillator :: "oscillator_preset option"
  p_filter :: "filter_preset option"
  p_envelope :: "envelope_preset option"
  p_effects :: "effects_preset option"

text \<open>\<open>defaultStructure\<close> of \<open>getPresetsDefinition()\<close>.\<close>

definition defaultStructure :: sound_params where
  "defaultStructure =
     \<lparr> sp_oscillator = \<lparr> osc_type = ''sawtooth'', osc_gain = 0.5 \<rparr>,
       sp_filter = \<lparr> filter_type = ''lowpass'', filter_frequency = 1500, filter_Q = 1.0 \<rparr>,
       sp_envelope = \<lparr> env_attack = 0.05, env_release = 0.5 \<rparr>,
       sp_effects =
         \<lparr> fx_delay = Some \<lparr> delay_active = False, delay_time = 0.3, delay_feedback = 0.3 \<rparr>,
           fx_reverb = Some \<lparr> reverb_active = False, reverb_decay = 1.5, reverb_wet = 0.3 \<rparr>,
           fx_glitch = Some \<lparr> glitch_active = False \<rparr>,
           fx_arpeggiator =
             Some \<lparr> arpp_active = False, arpp_rate = 8, arpp_pattern = [0, 7, 12] \<rparr> \<rparr> \<rparr>"

text \<open>The default structure as the entry \<open>'default'\<close> of the preset store: every field given.\<close>

definition full_preset :: "sound_params \<Rightarrow> preset" where
  "full_preset ps =
     \<lparr> p_oscillator =
         Some \<lparr> po_type = Some (osc_type (sp_oscillator ps)),
                 po_gain = Some (osc_gain (sp_oscillator ps)) \<rparr>,
       p_filter =
         Some \<lparr> pf_type = Some (filter_type (sp_filter ps)),
                 pf_frequency = Some (filter_frequency (sp_filter ps)),
                 pf_Q = Some (filter_Q (sp_filter ps)) \<rparr>,
       p_envelope =
         Some \<lparr> pe_attack = Some (env_attack (sp_envelope ps)),
                 pe_release = Some (env_release (sp_envelope ps)) \<rparr>,
       p_effects =
         Some \<lparr> pfx_delay =
                   map_option (\<lambda>d. \<lparr> pd_active = Some (delay_active d),
                                        pd_time = Some (delay_time d),
                                        pd_feedback = Some (delay_feedback d) \<rparr>)
                     (fx_delay (sp_effects ps)),
                 pfx_reverb =
                   map_option (\<lambda>r. \<lparr> pr_active = Some (reverb_active r),
                                        pr_decay = Some (reverb_decay r),
                                        pr_wet = Some (reverb_wet r) \<rparr>)
                     (fx_reverb (sp_effects ps)),
                 pfx_glitch =
                   map_option (\<lambda>g. \<lparr> pg_active = Some (glitch_active g) \<rparr>)
                     (fx_glitch (sp_effects ps)),
                 pfx_arpeggiator =
                   map_option (\<lambda>a. \<lparr> pa_active = Some (arpp_active a),
                                        pa_rate = Some (arpp_rate a),
                                        pa_pattern = Some (arpp_pattern a) \<rparr>)
                     (fx_arpeggiator (sp_effects ps)) \<rparr> \<rparr>"

text \<open>
  \<open>getPresetsDefinition()\<close>: the store as the object literal lists it. An association list
  keeps the order in which \<open>Object.keys\<close> enumerates the names.
\<close>

definition getPresetsDefinition :: "(string \<times> preset) list" where
  "getPresetsDefinition =
     [(''default'', full_preset defaultStructure),
      (''vaporwave'',
         \<lparr> p_oscillator = Some \<lparr> po_type = Some ''sine'', po_gain = Some 0.4 \<rparr>,
           p_filter = Some \<lparr> pf_type = None, pf_frequency = Some 800, pf_Q = Some 1.0 \<rparr>,
           p_envelope = Some \<lparr> pe_attack = Some 0.8, pe_release = Some 2.0 \<rparr>,
           p_effects =
             Some \<lparr> pfx_delay =
                       Some \<lparr> pd_active = Some True, pd_time = Some 0.5, pd_feedback = Some 0.4 \<rparr>,
                     pfx_reverb =
                       Some \<lparr> pr_active = Some True, pr_decay = Some 3.0, pr_wet = Some 0.7 \<rparr>,
                     pfx_glitch = None,
                     pfx_arpeggiator =
                       Some \<lparr> pa_active = Some False, pa_rate = Some 4, pa_pattern = None \<rparr> \<rparr> \<rparr>),
      (''ambient_drone'',
         \<lparr> p_oscillator = Some \<lparr> po_type = Some ''sine'', po_gain = Some 0.4 \<rparr>,
           p_filter = Some \<lparr> pf_type = None, pf_frequency = Some 600, pf_Q = Some 1.5 \<rparr>,
           p_envelope = Some \<lparr> pe_attack = Some 2.5, pe_release = Some 4.0 \<rparr>,
           p_effects =
             Some \<lparr> pfx_delay =
                       Some \<lparr> pd_active = Some True, pd_time = Some 0.7, pd_feedback = Some 0.55 \<rparr>,
                     pfx_reverb =
                       Some \<lparr> pr_active = Some True, pr_decay = Some 5.0, pr_wet = Some 0.8 \<rparr>,
                     pfx_glitch = None,
                     pfx_arpeggiator =
                       Some \<lparr> pa_active = Some False, pa_rate = None, pa_pattern = None \<rparr> \<rparr> \<rparr>),
      (''synthwave_lead'',
         \<lparr> p_oscillator = Some \<lparr> po_type = Some ''sawtooth'', po_gain = Some 0.6 \<rparr>,
           p_filter = Some \<lparr> pf_type = None, pf_frequency = Some 1200, pf_Q = Some 5.0 \<rparr>,
           p_envelope = Some \<lparr> pe_attack = Some 0.02, pe_release = Some 0.4 \<rparr>,
           p_effects =
             Some \<lparr> pfx_delay =
                       Some \<lparr> pd_active = Some True, pd_time = Some 0.25, pd_feedback = Some 0.3 \<rparr>,
                     pfx_reverb =
                       Some \<lparr> pr_active = Some True, pr_decay = Some 1.5, pr_wet = Some 0.4 \<rparr>,
                     pfx_glitch = None,
                     pfx_arpeggiator =
                       Some \<lparr> pa_active = Some True, pa_rate = Some 12,
                              pa_pattern = Some [0, 7, 12, 7] \<rparr> \<rparr> \<rparr>),
      (''grimoire_pulse'',
         \<lparr> p_oscillator = Some \<lparr> po_type = Some ''square'', po_gain = Some 0.4 \<rparr>,
           p_filter =
             Some \<lparr> pf_type = Some ''bandpass'', pf_frequency = Some 900, pf_Q = Some 6.0 \<rparr>,
           p_envelope = Some \<lparr> pe_attack = Some 0.01, pe_release = Some 0.2 \<rparr>,
           p_effects =
             Some \<lparr> pfx_delay =
                       Some \<lparr> pd_active = Some True, pd_time = Some 0.15, pd_feedback = Some 0.6 \<rparr>,
                     pfx_reverb =
                       Some \<lparr> pr_active = Some False, pr_decay = None, pr_wet = None \<rparr>,
                     pfx_glitch = Some \<lparr> pg_active = Some True \<rparr>,
                     pfx_arpeggiator =
                       Some \<lparr> pa_active = Some True, pa_rate = Some 10,
                              pa_pattern = Some [0, 3, 7, 10] \<rparr> \<rparr> \<rparr>)]"

text \<open>\<open>Object.assign(target, source)\<close> on one field: a field the source has wins.\<close>

definition assign :: "'a \<Rightarrow> 'a option \<Rightarrow> 'a" where
  "assign target src = (case src of None \<Rightarrow> target | Some v \<Rightarrow> v)"

definition merge_oscillator :: "oscillator_params \<Rightarrow> oscillator_preset \<Rightarrow> oscillator_params" where
  "merge_oscillator t p =
     \<lparr> osc_type = assign (osc_type t) (po_type p), osc_gain = assign (osc_gain t) (po_gain p) \<rparr>"

definition merge_filter :: "filter_params \<Rightarrow> filter_preset \<Rightarrow> filter_params" where
  "merge_filter t p =
     \<lparr> filter_type = assign (filter_type t) (pf_type p),
       filter_frequency = assign (filter_frequency t) (pf_frequency p),
       filter_Q = assign (filter_Q t) (pf_Q p) \<rparr>"

definition merge_envelope :: "envelope_params \<Rightarrow> envelope_preset \<Rightarrow> envelope_params" where
  "merge_envelope t p =
     \<lparr> env_attack = assign (env_attack t) (pe_attack p),
       env_release = assign (env_release t) (pe_release p) \<rparr>"

definition merge_delay :: "delay_params \<Rightarrow> delay_preset \<Rightarrow> delay_params" where
  "merge_delay t p =
     \<lparr> delay_active = assign (delay_active t) (pd_active p),
       delay_time = assign (delay_time t) (pd_time p),
       delay_feedback = assign (delay_feedback t) (pd_feedback p) \<rparr>"

definition merge_reverb :: "reverb_params \<Rightarrow> reverb_preset \<Rightarrow> reverb_params" where
  "merge_reverb t p =
     \<lparr> reverb_active = assign (reverb_active t) (pr_active p),
       reverb_decay = assign (reverb_decay t) (pr_decay p),
       reverb_wet = assign (reverb_wet t) (pr_wet p) \<rparr>"

definition merge_glitch :: "glitch_params \<Rightarrow> glitch_preset \<Rightarrow> glitch_params" where
  "merge_glitch t p = \<lparr> glitch_active = assign (glitch_active t) (pg_active p) \<rparr>"

definition merge_arpeggiator :: "arpeggiator_params \<Rightarrow> arpeggiator_preset \<Rightarrow> arpeggiator_params" where
  "merge_arpeggiator t p =
     \<lparr> arpp_active = assign (arpp_active t) (pa_active p),
       arpp_rate = assign (arpp_rate t) (pa_rate p),
       arpp_pattern = assign (arpp_pattern t) (pa_pattern p) \<rparr>"

text \<open>
  One effect group of the merge loop: a group of the preset is assigned over the group of
  the default structure, which has all four groups.
\<close>

definition merge_group :: "('t \<Rightarrow> 'p \<Rightarrow> 't) \<Rightarrow> 't option \<Rightarrow> 'p option \<Rightarrow> 't option" where
  "merge_group m t p =
     (case p of None \<Rightarrow> t | Some pv \<Rightarrow> (case t of None \<Rightarrow> None | Some tv \<Rightarrow> Some (m tv pv)))"

definition merge_effects :: "effects_params \<Rightarrow> effects_preset \<Rightarrow> effects_params" where
  "merge_effects t p =
     \<lparr> fx_delay = merge_group merge_delay (fx_delay t) (pfx_delay p),
       fx_reverb = merge_group merge_reverb (fx_reverb t) (pfx_reverb p),
       fx_glitch = merge_group merge_glitch (fx_glitch t) (pfx_glitch p),
       fx_arpeggiator = merge_group merge_arpeggiator (fx_arpeggiator t) (pfx_arpeggiator p) \<rparr>"

definition merge_preset :: "sound_params \<Rightarrow> preset \<Rightarrow> sound_params" where
  "merge_preset d p =
     \<lparr> sp_oscillator =
         (case p_oscillator p of None \<Rightarrow> sp_oscillator d
          | Some x \<Rightarrow> merge_oscillator (sp_oscillator d) x),
       sp_filter =
         (case p_filter p of None \<Rightarrow> sp_filter d | Some x \<Rightarrow> merge_filter (sp_filter d) x),
       sp_envelope =
         (case p_envelope p of None \<Rightarrow> sp_envelope d
          | Some x \<Rightarrow> merge_envelope (sp_envelope d) x),
       sp_effects =
         (case p_effects p of None \<Rightarrow> sp_effects d | Some x \<Rightarrow> merge_effects (sp_effects d) x) \<rparr>"

text \<open>\<open>getPresetNames()\<close>: the names of the store without \<open>'default'\<close>.\<close>

definition getPresetNames :: "audio_state \<Rightarrow> string list" where
  "getPresetNames s =
     (if disposed s then []
      else filter (\<lambda>name. name \<noteq> ''default'') (map fst getPresetsDefinition))"

subsection \<open>Effect toggles\<close>

text \<open>\<open>effects[effectName]?.active\<close>: \<open>None\<close> when the name has no group.\<close>

definition effect_active :: "effects_params \<Rightarrow> string \<Rightarrow> bool option" where
  "effect_active fx effectName =
     (if effectName = ''delay'' then map_option delay_active (fx_delay fx)
      else if effectName = ''reverb'' then map_option reverb_active (fx_reverb fx)
      else if effectName = ''glitch'' then map_option glitch_active (fx_glitch fx)
      else if effectName = ''arpeggiator'' then map_option arpp_active (fx_arpeggiator fx)
      else None)"

definition set_effect_active :: "string \<Rightarrow> bool \<Rightarrow> effects_params \<Rightarrow> effects_params" where
  "set_effect_active effectName b fx =
     (if effectName = ''delay''
        then fx\<lparr>fx_delay := map_option (\<lambda>d. d\<lparr>delay_active := b\<rparr>) (fx_delay fx)\<rparr>
      else if effectName = ''reverb''
        then fx\<lparr>fx_reverb := map_option (\<lambda>r. r\<lparr>reverb_active := b\<rparr>) (fx_reverb fx)\<rparr>
      else if effectName = ''glitch''
        then fx\<lparr>fx_glitch := map_option (\<lambda>g. g\<lparr>glitch_active := b\<rparr>) (fx_glitch fx)\<rparr>
      else if effectName = ''arpeggiator''
        then fx\<lparr>fx_arpeggiator := map_option (\<lambda>a. a\<lparr>arpp_active := b\<rparr>) (fx_arpeggiator fx)\<rparr>
      else fx)"

definition set_effects :: "effects_params \<Rightarrow> audio_state \<Rightarrow> audio_state" where
  "set_effects fx s = s\<lparr>parameters := (parameters s)\<lparr>sp_effects := fx\<rparr>\<rparr>"

text \<open>
  \<open>toggleEffect(effectName, isActive)\<close>. For a group that is missing the source stores a
  default group for the arpeggiator or the glitch and then fails reading \<open>active\<close> of the
  undefined \<open>effectParams\<close>; the state is then as the store left it. The effect names are
  the four groups of the parameter structure; a call with the name of a member of
  \<open>Object.prototype\<close> writes a flag on that shared member and is not represented.
\<close>

definition toggleEffect :: "platform \<Rightarrow> string \<Rightarrow> bool \<Rightarrow> audio_state \<Rightarrow> audio_state" where
  "toggleEffect pf effectName isActive s =
     (if disposed s then s
      else
        let effects = sp_effects (parameters s) in
        case effect_active effects effectName of
          None \<Rightarrow>
            if effectName = ''arpeggiator''
              then set_effects (effects\<lparr>fx_arpeggiator :=
                     Some \<lparr>arpp_active = False, arpp_rate = 8, arpp_pattern = [0, 4, 7]\<rparr>\<rparr>) s
            else if effectName = ''glitch''
              then set_effects (effects\<lparr>fx_glitch := Some \<lparr>glitch_active = False\<rparr>\<rparr>) s
            else s
        | Some cur \<Rightarrow>
            if cur = isActive then s
            else
              let s1 = set_effects (set_effect_active effectName isActive effects) s in
              if effectName = ''arpeggiator'' then
                (let s2 = s1\<lparr>arp := (arp s1)\<lparr>arp_active := isActive\<rparr>\<rparr> in
                 if isActive then
                   (if activeNote s2 \<noteq> None \<and> arp_intervalId (arp s2) = None then
                      (let s3 = stopSustainedNote False s2;
                           s4 = s3\<lparr>arp := (arp s3)\<lparr>arp_baseNote := activeNote s3,
                                                      arp_currentStep := 0\<rparr>\<rparr>
                       in (startArpeggiator pf s4)\<lparr>isPlaying := True\<rparr>)
                    else s2)
                 else
                   (if arp_intervalId (arp s2) \<noteq> None then
                      (let s3 = stopArpeggiator s2 in
                       case activeNote s3 of
                         Some n \<Rightarrow> playSustainedNote pf n s3
                       | None \<Rightarrow> s3\<lparr>isPlaying := False\<rparr>)
                    else s2))
              else
                (case currentVoice s1 of
                   None \<Rightarrow> s1
                 | Some v \<Rightarrow>
                     s1\<lparr>currentVoice :=
                          Some (v\<lparr>v_out := connectEffectsToNode pf s1 (v_out v)\<rparr>)\<rparr>))"

text \<open>
  \<open>_applyCurrentToggleStates()\<close>: \<open>toggleEffect\<close> with the stored flag of every group that
  has one, in the order of the keys of the default structure.
\<close>

definition applyCurrentToggleStates :: "platform \<Rightarrow> audio_state \<Rightarrow> audio_state" where
  "applyCurrentToggleStates pf s =
     fold (\<lambda>effectName st.
             case effect_active (sp_effects (parameters st)) effectName of
               None \<Rightarrow> st
             | Some b \<Rightarrow> toggleEffect pf effectName b st)
       [''delay'', ''reverb'', ''glitch'', ''arpeggiator''] s"

subsection \<open>Setting parameters\<close>

datatype pvalue = Num real | Pat "int list" | Flag bool | Str string

text \<open>
  The store of \<open>setParameter(type, name, value)\<close>: \<open>None\<close> when the dotted path \<open>type\<close>
  names no group of the parameter structure (the source warns and returns). A name or a
  value outside the modelled fields leaves the modelled structure as it is; paths into the
  pattern array are not modelled.
\<close>

definition store_param :: "string \<Rightarrow> string \<Rightarrow> pvalue \<Rightarrow> sound_params \<Rightarrow> sound_params option" where
  "store_param type name val ps =
     (let fx = sp_effects ps in
      if type = ''oscillator'' then
        Some (case (name, val) of
                (''type'', Str t) \<Rightarrow> ps\<lparr>sp_oscillator := (sp_oscillator ps)\<lparr>osc_type := t\<rparr>\<rparr>
              | (''gain'', Num g) \<Rightarrow> ps\<lparr>sp_oscillator := (sp_oscillator ps)\<lparr>osc_gain := g\<rparr>\<rparr>
              | _ \<Rightarrow> ps)
      else if type = ''filter'' then
        Some (case (name, val) of
                (''type'', Str t) \<Rightarrow> ps\<lparr>sp_filter := (sp_filter ps)\<lparr>filter_type := t\<rparr>\<rparr>
              | (''frequency'', Num f) \<Rightarrow>
                  ps\<lparr>sp_filter := (sp_filter ps)\<lparr>filter_frequency := f\<rparr>\<rparr>
              | (''Q'', Num q) \<Rightarrow> ps\<lparr>sp_filter := (sp_filter ps)\<lparr>filter_Q := q\<rparr>\<rparr>
              | _ \<Rightarrow> ps)
      else if type = ''envelope'' then
        Some (case (name, val) of
                (''attack'', Num a) \<Rightarrow> ps\<lparr>sp_envelope := (sp_envelope ps)\<lparr>env_attack := a\<rparr>\<rparr>
              | (''release'', Num r) \<Rightarrow>
                  ps\<lparr>sp_envelope := (sp_envelope ps)\<lparr>env_release := r\<rparr>\<rparr>
              | _ \<Rightarrow> ps)
      else if type = ''effects'' then Some ps
      else if type = ''effects.delay'' then
        (case fx_delay fx of
           None \<Rightarrow> None
         | Some d \<Rightarrow>
             Some (ps\<lparr>sp_effects := fx\<lparr>fx_delay := Some
                     (case (name, val) of
                        (''active'', Flag b) \<Rightarrow> d\<lparr>delay_active := b\<rparr>
                      | (''time'', Num t) \<Rightarrow> d\<lparr>delay_time := t\<rparr>
                      | (''feedback'', Num f) \<Rightarrow> d\<lparr>delay_feedback := f\<rparr>
                      | _ \<Rightarrow> d)\<rparr>\<rparr>))
      else if type = ''effects.reverb'' then
        (case fx_reverb fx of
           None \<Rightarrow> None
         | Some r \<Rightarrow>
             Some (ps\<lparr>sp_effects := fx\<lparr>fx_reverb := Some
                     (case (name, val) of
                        (''active'', Flag b) \<Rightarrow> r\<lparr>reverb_active := b\<rparr>
                      | (''decay'', Num d) \<Rightarrow> r\<lparr>reverb_decay := d\<rparr>
                      | (''wet'', Num w) \<Rightarrow> r\<lparr>reverb_wet := w\<rparr>
                      | _ \<Rightarrow> r)\<rparr>\<rparr>))
      else if type = ''effects.glitch'' then
        (case fx_glitch fx of
           None \<Rightarrow> None
         | Some g \<Rightarrow>
             Some (ps\<lparr>sp_effects := fx\<lparr>fx_glitch := Some
                     (case (name, val) of
                        (''active'', Flag b) \<Rightarrow> g\<lparr>glitch_active := b\<rparr>
                      | _ \<Rightarrow> g)\<rparr>\<rparr>))
      else if type = ''effects.arpeggiator'' then
        (case fx_arpeggiator fx of
           None \<Rightarrow> None
         | Some a \<Rightarrow>
             Some (ps\<lparr>sp_effects := fx\<lparr>fx_arpeggiator := Some
                     (case (name, val) of
                        (''active'', Flag b) \<Rightarrow> a\<lparr>arpp_active := b\<rparr>
                      | (''rate'', Num r) \<Rightarrow> a\<lparr>arpp_rate := r\<rparr>
                      | (''pattern'', Pat p) \<Rightarrow> a\<lparr>arpp_pattern := p\<rparr>
                      | _ \<Rightarrow> a)\<rparr>\<rparr>))
      else None)"

text \<open>
  \<open>setParameter(type, name, value)\<close>. After the store, the cases of the switch that ramp an
  audio node or regenerate the reverb impulse leave the modelled state alone; a new
  arpeggiator rate restarts a running sequencer, a new pattern is copied to the sequencer.
\<close>

definition setParameter :: "platform \<Rightarrow> string \<Rightarrow> string \<Rightarrow> pvalue \<Rightarrow> audio_state \<Rightarrow> audio_state" where
  "setParameter pf type name val s =
     (if disposed s then s
      else case store_param type name val (parameters s) of
        None \<Rightarrow> s
      | Some ps \<Rightarrow>
          let s1 = s\<lparr>parameters := ps\<rparr> in
          if \<not> isInitialized s1 then s1
          else if type = ''effects.arpeggiator'' \<and> name = ''rate'' then
            (case val of
               Num r \<Rightarrow>
                 (let s2 = s1\<lparr>arp := (arp s1)\<lparr>arp_rate := r\<rparr>\<rparr> in
                  if arp_active (arp s2) \<and> arp_intervalId (arp s2) \<noteq> None then
                    (let s3 = stopArpeggiator s2 in
                     if activeNote s3 \<noteq> None
                       then (startArpeggiator pf s3)\<lparr>isPlaying := True\<rparr>
                     else s3)
                  else s2)
             | _ \<Rightarrow> s1)
          else if type = ''effects.arpeggiator'' \<and> name = ''pattern'' then
            (case val of
               Pat p \<Rightarrow> s1\<lparr>arp := (arp s1)\<lparr>arp_pattern := p\<rparr>\<rparr>
             | _ \<Rightarrow> s1)
          else s1)"

definition setOscillatorType :: "string \<Rightarrow> audio_state \<Rightarrow> audio_state" where
  "setOscillatorType t s =
     (if disposed s then s
      else if t \<in> set [''sine'', ''square'', ''sawtooth'', ''triangle'']
        then s\<lparr>parameters :=
                 (parameters s)\<lparr>sp_oscillator := (sp_oscillator (parameters s))\<lparr>osc_type := t\<rparr>\<rparr>\<rparr>
      else s)"

definition setFilterType :: "string \<Rightarrow> audio_state \<Rightarrow> audio_state" where
  "setFilterType t s =
     (if disposed s then s
      else if t \<in> set [''lowpass'', ''highpass'', ''bandpass'', ''notch'', ''lowshelf'',
                        ''highshelf'', ''peaking'', ''allpass'']
        then s\<lparr>parameters :=
                 (parameters s)\<lparr>sp_filter := (sp_filter (parameters s))\<lparr>filter_type := t\<rparr>\<rparr>\<rparr>
      else s)"

subsection \<open>Applying a preset\<close>

text \<open>
  \<open>this.audioState.presets[presetName]\<close>: a preset of the store; a member inherited from
  \<open>Object.prototype\<close> is truthy and has none of the four groups, so it passes for a preset
  that overrides nothing.
\<close>

definition find_preset :: "string \<Rightarrow> preset option" where
  "find_preset presetName =
     (case get_property (map_of getPresetsDefinition) presetName of
        Own preset \<Rightarrow> Some preset
      | Inherited \<Rightarrow>
          Some \<lparr> p_oscillator = None, p_filter = None, p_envelope = None, p_effects = None \<rparr>
      | Undefined \<Rightarrow> None)"

text \<open>
  \<open>applyPresetAudio(presetName)\<close>: an unknown name is refused with a warning and changes
  nothing; a known one replaces the parameters by the merge over the default structure,
  copies rate and pattern to the sequencer and, once initialized, pushes the parameters
  through the setters.
\<close>

definition applyPresetAudio :: "platform \<Rightarrow> string \<Rightarrow> audio_state \<Rightarrow> audio_state" where
  "applyPresetAudio pf presetName s =
     (if disposed s then s
      else case find_preset presetName of
        None \<Rightarrow> s
      | Some preset \<Rightarrow>
          let mergedParams = merge_preset defaultStructure preset;
              s1 = s\<lparr>activePresetName := presetName, parameters := mergedParams\<rparr>
          in case fx_arpeggiator (sp_effects mergedParams) of
            None \<Rightarrow> s1
          | Some arpParams \<Rightarrow>
              let s2 = s1\<lparr>arp := (arp s1)\<lparr>arp_rate := arpp_rate arpParams,
                                           arp_pattern := arpp_pattern arpParams\<rparr>\<rparr>;
                  ps = parameters s2
              in if \<not> isInitialized s2 then s2
                 else
                   applyCurrentToggleStates pf
                    (setParameter pf ''effects.arpeggiator'' ''pattern'' (Pat (arpp_pattern arpParams))
                    (setParameter pf ''effects.arpeggiator'' ''rate'' (Num (arpp_rate arpParams))
                    (setParameter pf ''effects.reverb'' ''wet''
                       (Num (case fx_reverb (sp_effects ps) of Some r \<Rightarrow> reverb_wet r | None \<Rightarrow> 0))
                    (setParameter pf ''effects.reverb'' ''decay''
                       (Num (case fx_reverb (sp_effects ps) of Some r \<Rightarrow> reverb_decay r | None \<Rightarrow> 0))
                    (setParameter pf ''effects.delay'' ''feedback''
                       (Num (case fx_delay (sp_effects ps) of Some d \<Rightarrow> delay_feedback d | None \<Rightarrow> 0))
                    (setParameter pf ''effects.delay'' ''time''
                       (Num (case fx_delay (sp_effects ps) of Some d \<Rightarrow> delay_time d | None \<Rightarrow> 0))
                    (setParameter pf ''filter'' ''Q'' (Num (filter_Q (sp_filter ps)))
                    (setParameter pf ''filter'' ''frequency'' (Num (filter_frequency (sp_filter ps)))
                    (setFilterType (filter_type (sp_filter ps))
                    (setOscillatorType (osc_type (sp_oscillator ps)) s2)))))))))))"

subsection \<open>Construction, initialization, disposal\<close>

text \<open>
  The constructor: the sequencer starts with rate 8 and pattern \<open>[0, 4, 7]\<close>, then the
  initial preset is applied. The source starts from parameter groups that are empty
  objects, which the total fields of \<open>sound_params\<close> cannot express: they are represented
  by the default structure until a preset replaces them, so a module constructed with a
  preset name that the store does not have differs from the source in its parameters.
\<close>

definition new_SoundModule :: "string \<Rightarrow> audio_state" where
  "new_SoundModule initialPresetName =
     applyPresetAudio \<lparr>nodes_ok = True, strict_disconnect = True\<rparr> initialPresetName
       \<lparr> disposed = False, isInitialized = False, isPlaying = False, ctx_running = False,
         currentVoice = None, activeNote = None, as_currentNoteFrequency = None,
         delayNode = False, reverbNode = False,
         arp = \<lparr> arp_active = False, arp_intervalId = None, arp_rate = 8,
                 arp_pattern = [0, 4, 7], arp_currentStep = 0, arp_baseNote = None \<rparr>,
         parameters = defaultStructure, activePresetName = initialPresetName,
         timers = [], next_timer = 1, next_voice = 0 \<rparr>"

text \<open>
  \<open>_initializeAudio()\<close> on the first user interaction; the arguments say whether the
  browser provides an audio context and the delay and reverb nodes.
\<close>

definition initializeAudio :: "platform \<Rightarrow> bool \<Rightarrow> bool \<Rightarrow> bool \<Rightarrow> audio_state \<Rightarrow> audio_state" where
  "initializeAudio pf ctx_ok delay_ok reverb_ok s =
     (if disposed s \<or> isInitialized s then s
      else if \<not> ctx_ok then s\<lparr>isInitialized := False\<rparr>
      else applyCurrentToggleStates pf
             (s\<lparr>isInitialized := True, delayNode := delay_ok, reverbNode := reverb_ok\<rparr>))"

definition dispose :: "audio_state \<Rightarrow> audio_state" where
  "dispose s =
     (if disposed s then s
      else
        let s1 = stopNote False (stopArpeggiator s);
            s2 = (if isInitialized s1 then cleanupCurrentNoteNodes s1 else s1)
        in s2\<lparr>disposed := True\<rparr>)"

subsection \<open>What can happen to a sound module\<close>

datatype event =
    InitializeAudio bool bool bool
  | SetContextRunning bool
  | StartNote string
  | StopNote bool
  | ToggleEffect string bool
  | SetParameter string string pvalue
  | SetOscillatorType string
  | SetFilterType string
  | ApplyPresetAudio string
  | TimerTick nat
  | SustainedCleanupTimeout nat
  | ArpCleanupTimeout nat
  | Dispose

text \<open>
  One turn of the event loop. A timer fires \<open>_arpStep\<close> only while it is armed; the
  cleanup timeouts may fire for any voice, which covers every timeout the source schedules.
\<close>

fun step :: "platform \<Rightarrow> event \<Rightarrow> audio_state \<Rightarrow> audio_state" where
  "step pf (InitializeAudio c d r) s = initializeAudio pf c d r s"
| "step pf (SetContextRunning b) s = (if disposed s then s else s\<lparr>ctx_running := b\<rparr>)"
| "step pf (StartNote n) s = startNote pf n s"
| "step pf (StopNote r) s = stopNote r s"
| "step pf (ToggleEffect n b) s = toggleEffect pf n b s"
| "step pf (SetParameter t n v) s = setParameter pf t n v s"
| "step pf (SetOscillatorType t) s = setOscillatorType t s"
| "step pf (SetFilterType t) s = setFilterType t s"
| "step pf (ApplyPresetAudio n) s = applyPresetAudio pf n s"
| "step pf (TimerTick h) s = (if h \<in> fst ` set (timers s) then arpStep pf s else s)"
| "step pf (SustainedCleanupTimeout v) s = sustainedCleanupTimeout v s"
| "step pf (ArpCleanupTimeout v) s = arpCleanupTimeout v s"
| "step pf Dispose s = dispose s"

inductive reachable :: "audio_state \<Rightarrow> bool" where
  initial: "reachable (new_SoundModule initialPresetName)"
| after: "reachable s \<Longrightarrow> reachable (step pf ev s)"

text \<open>
  The invariant of the step timer: the armed interval timers are exactly the one whose
  handle is stored, or none when the handle is null.
\<close>

definition timer_inv :: "audio_state \<Rightarrow> bool" where
  "timer_inv s =
     (map fst (timers s) = (case arp_intervalId (arp s) of None \<Rightarrow> [] | Some h \<Rightarrow> [h]))"

subsection \<open>Spectral analysis\<close>

text \<open>
  What \<open>getAudioLevels\<close> reads from the browser: the byte frequency data of the analyser
  (one value from 0 to 255 per bin) and the sample rate of the audio context.
\<close>

record analyser =
  dataArray :: "nat list"
  sampleRate :: real

record band_sums =
  bassSum :: nat
  midSum :: nat
  highSum :: nat
  bassCount :: nat
  midCount :: nat
  highCount :: nat

text \<open>
  \<open>Math.min(bufferLength - 1, Math.floor(freq / nyquist * bufferLength))\<close>
\<close>

definition bandEndIndex :: "real \<Rightarrow> real \<Rightarrow> nat \<Rightarrow> int" where
  "bandEndIndex freq nyquist bufferLength =
     min (int bufferLength - 1) \<lfloor>freq / nyquist * real bufferLength\<rfloor>"

text \<open>The body of the summing loop for the bin \<open>i\<close> with value \<open>v\<close>.\<close>

definition bandStep :: "int \<Rightarrow> int \<Rightarrow> int \<Rightarrow> int \<Rightarrow> nat \<Rightarrow> band_sums \<Rightarrow> band_sums" where
  "bandStep bassEndIndex midEndIndex highEndIndex i v acc =
     (if i \<le> bassEndIndex
        then acc\<lparr>bassSum := bassSum acc + v, bassCount := bassCount acc + 1\<rparr>
      else if i \<ge> bassEndIndex + 1 \<and> i \<le> midEndIndex
        then acc\<lparr>midSum := midSum acc + v, midCount := midCount acc + 1\<rparr>
      else if i \<ge> midEndIndex + 1 \<and> i \<le> highEndIndex
        then acc\<lparr>highSum := highSum acc + v, highCount := highCount acc + 1\<rparr>
      else acc)"

text \<open>The loop, from index \<open>i\<close> on, over the rest of the data.\<close>

fun sumBands :: "int \<Rightarrow> int \<Rightarrow> int \<Rightarrow> int \<Rightarrow> nat list \<Rightarrow> band_sums \<Rightarrow> band_sums" where
  "sumBands bassEndIndex midEndIndex highEndIndex i [] acc = acc"
| "sumBands bassEndIndex midEndIndex highEndIndex i (v # rest) acc =
     sumBands bassEndIndex midEndIndex highEndIndex (i + 1) rest
       (bandStep bassEndIndex midEndIndex highEndIndex i v acc)"

text \<open>\<open>Math.min(1.0, Math.max(0.0, Math.pow(avg, exponent) * gain))\<close>\<close>

definition bandLevel :: "nat \<Rightarrow> nat \<Rightarrow> real \<Rightarrow> real \<Rightarrow> real" where
  "bandLevel bandSum bandCount exponent gain =
     (let epsilon = 1 / 10 ^ 6;
          avg = (real bandSum / (real bandCount + epsilon)) / 255.0
      in min 1.0 (max 0.0 (avg powr exponent * gain)))"

text \<open>
  \<open>getAudioLevels()\<close>. Without an initialized engine or an analyser the levels are zero and
  the frequency is \<open>currentNoteFrequency || null\<close>.
\<close>

definition getAudioLevels :: "audio_state \<Rightarrow> analyser option \<Rightarrow> audio_levels" where
  "getAudioLevels s an =
     (case (if disposed s \<or> \<not> isInitialized s then None else an) of
        None \<Rightarrow>
          \<lparr> lv_bass = 0, lv_mid = 0, lv_high = 0,
            lv_frequency =
              (if disposed s \<or> as_currentNoteFrequency s = Some 0 then None
               else as_currentNoteFrequency s) \<rparr>
      | Some a \<Rightarrow>
          let bufferLength = length (dataArray a);
              nyquist = sampleRate a / 2;
              bassEndIndex = bandEndIndex 250 nyquist bufferLength;
              midEndIndex = bandEndIndex 2000 nyquist bufferLength;
              highEndIndex = bandEndIndex 6000 nyquist bufferLength;
              bands = sumBands bassEndIndex midEndIndex highEndIndex 0 (dataArray a)
                       \<lparr> bassSum = 0, midSum = 0, highSum = 0,
                         bassCount = 0, midCount = 0, highCount = 0 \<rparr>
          in \<lparr> lv_bass = bandLevel (bassSum bands) (bassCount bands) 0.8 1.8,
               lv_mid = bandLevel (midSum bands) (midCount bands) 0.9 1.4,
               lv_high = bandLevel (highSum bands) (highCount bands) 0.7 2.2,
               lv_frequency = as_currentNoteFrequency s \<rparr>)"

text \<open>The accumulators before the loop, and the relation that holds between sums and
  counts when every bin has the value \<open>v\<close>.\<close>

definition no_sums :: band_sums where
  "no_sums = \<lparr> bassSum = 0, midSum = 0, highSum = 0, bassCount = 0, midCount = 0, highCount = 0 \<rparr>"

definition sums_match :: "nat \<Rightarrow> band_sums \<Rightarrow> bool" where
  "sums_match v acc \<longleftrightarrow> bassSum acc = v * bassCount acc \<and> midSum acc = v * midCount acc
     \<and> highSum acc = v * highCount acc"

section \<open>Projection strategies (core/ProjectionManager.js)\<close>

text \<open>
  Each projection class emits the GLSL of \<open>vec3 project4Dto3D(vec4 p)\<close>. The functions below
  are that GLSL over the reals, with the uniforms \<open>u_morphFactor\<close>, \<open>u_audioMid\<close> and
  \<open>u_audioHigh\<close> as arguments. GLSL leaves \<open>normalize\<close> of the zero vector undefined (it
  divides by the length); that case is the value \<open>None\<close>.
\<close>

type_synonym vec3 = "real \<times> real \<times> real"

record vec4 =
  px :: real
  py :: real
  pz :: real
  pw :: real

definition xyz :: "vec4 \<Rightarrow> vec3" where
  "xyz p = (px p, py p, pz p)"

definition scale3 :: "vec3 \<Rightarrow> real \<Rightarrow> vec3" where
  "scale3 v c = (case v of (x, y, z) \<Rightarrow> (x * c, y * c, z * c))"

definition add3 :: "vec3 \<Rightarrow> vec3 \<Rightarrow> vec3" where
  "add3 u v = (case u of (a, b, c) \<Rightarrow> case v of (x, y, z) \<Rightarrow> (a + x, b + y, c + z))"

definition length3 :: "vec3 \<Rightarrow> real" where
  "length3 v = (case v of (x, y, z) \<Rightarrow> sqrt (x * x + y * y + z * z))"

definition normalize3 :: "vec3 \<Rightarrow> vec3 option" where
  "normalize3 v = (if length3 v = 0 then None else Some (scale3 v (1 / length3 v)))"

text \<open>GLSL \<open>mix(x, y, a) = x * (1 - a) + y * a\<close>, \<open>sign\<close> and \<open>smoothstep\<close>.\<close>

definition mix3 :: "vec3 \<Rightarrow> vec3 \<Rightarrow> real \<Rightarrow> vec3" where
  "mix3 u v a = add3 (scale3 u (1 - a)) (scale3 v a)"

definition glsl_sign :: "real \<Rightarrow> real" where
  "glsl_sign x = (if x > 0 then 1 else if x < 0 then - 1 else 0)"

definition smoothstep :: "real \<Rightarrow> real \<Rightarrow> real \<Rightarrow> real" where
  "smoothstep edge0 edge1 x =
     (let t = min (max ((x - edge0) / (edge1 - edge0)) 0) 1 in t * t * (3 - 2 * t))"

text \<open>
  \<open>Number.prototype.toFixed(2)\<close>, read back as a number: the constructor arguments enter
  the GLSL as literals with two decimals.
\<close>

definition toFixed2 :: "real \<Rightarrow> real" where
  "toFixed2 x = glsl_sign x * real_of_int \<lfloor>\<bar>x\<bar> * 100 + 1 / 2\<rfloor> / 100"

text \<open>\<open>PerspectiveProjection\<close>: the constructor and the emitted function.\<close>

definition PerspectiveProjection :: "real \<Rightarrow> real" where
  "PerspectiveProjection viewDistance = max 0.1 viewDistance"

definition perspective_project4Dto3D :: "real \<Rightarrow> real \<Rightarrow> real \<Rightarrow> vec4 \<Rightarrow> vec3" where
  "perspective_project4Dto3D viewDistance u_morphFactor u_audioMid p =
     (let baseDistance = toFixed2 viewDistance;
          dynamicDistance0 = baseDistance * (1.0 + u_morphFactor * 0.4 - u_audioMid * 0.3);
          dynamicDistance = max 0.2 dynamicDistance0;
          denominator = dynamicDistance + pw p;
          w_factor = dynamicDistance / max 0.1 denominator
      in scale3 (xyz p) w_factor)"

text \<open>\<open>OrthographicProjection\<close>.\<close>

definition orthographic_project4Dto3D :: "real \<Rightarrow> real \<Rightarrow> vec4 \<Rightarrow> vec3" where
  "orthographic_project4Dto3D u_morphFactor u_audioMid p =
     (let orthoP = xyz p;
          basePerspectiveDistance = 2.5;
          dynamicPerspectiveDistance0 = basePerspectiveDistance * (1.0 - u_audioMid * 0.4);
          dynamicPerspectiveDistance = max 0.2 dynamicPerspectiveDistance0;
          perspDenominator = dynamicPerspectiveDistance + pw p;
          persp_w_factor = dynamicPerspectiveDistance / max 0.1 perspDenominator;
          perspP = scale3 (xyz p) persp_w_factor;
          morphT = smoothstep 0.0 1.0 u_morphFactor
      in mix3 orthoP perspP morphT)"

text \<open>\<open>StereographicProjection\<close>: the constructor, the pole moved by the high band, and the
  emitted function.\<close>

definition StereographicProjection :: "real \<Rightarrow> real" where
  "StereographicProjection projectionPoleW =
     (if \<bar>projectionPoleW\<bar> < 0.01 then - 1.0 else projectionPoleW)"

definition dynamicPoleW :: "real \<Rightarrow> real \<Rightarrow> real" where
  "dynamicPoleW baseProjectionPoleW u_audioHigh =
     (let basePoleW = toFixed2 baseProjectionPoleW;
          d = basePoleW + u_audioHigh * 0.3 * glsl_sign basePoleW
      in glsl_sign d * max 0.1 \<bar>d\<bar>)"

definition stereographic_project4Dto3D :: "real \<Rightarrow> real \<Rightarrow> real \<Rightarrow> vec4 \<Rightarrow> vec3 option" where
  "stereographic_project4Dto3D baseProjectionPoleW u_morphFactor u_audioHigh p =
     (let poleW = dynamicPoleW baseProjectionPoleW u_audioHigh;
          denominator = pw p - poleW;
          epsilon = 0.01;
          projectedP =
            (if \<bar>denominator\<bar> < epsilon
               then map_option (\<lambda>n. scale3 n 1000.0) (normalize3 (xyz p))
             else Some (scale3 (xyz p) ((- poleW) / denominator)));
          morphT = smoothstep 0.0 1.0 (u_morphFactor * 0.8);
          orthoP = xyz p
      in map_option (\<lambda>q. mix3 q orthoP morphT) projectedP)"

text \<open>
  The perspective formula as the specification words it: \<open>xyz\<close> scaled by
  \<open>distance / (distance + w)\<close>, the denominator clamped to at least 0.1.
\<close>

definition spec_perspective_formula :: "real \<Rightarrow> vec4 \<Rightarrow> vec3" where
  "spec_perspective_formula distance p = scale3 (xyz p) (distance / max 0.1 (distance + pw p))"

subsection \<open>The registry (class \<open>ProjectionManager\<close>)\<close>

text \<open>
  The three providers that \<open>_initProjections\<close> registers, under lower-case names, in the
  plain object \<open>this.projections\<close>.
\<close>

datatype projection = Perspective | Orthographic | Stereographic

definition projections :: "string \<Rightarrow> projection option" where
  "projections =
     map_of [(''perspective'', Perspective), (''orthographic'', Orthographic),
             (''stereographic'', Stereographic)]"

text \<open>\<open>String.prototype.toLowerCase\<close> on the letters A to Z.\<close>

definition toLowerCase :: "string \<Rightarrow> string" where
  "toLowerCase name =
     map (\<lambda>c. case map_of (zip ''ABCDEFGHIJKLMNOPQRSTUVWXYZ'' ''abcdefghijklmnopqrstuvwxyz'') c of
                 Some l \<Rightarrow> l
               | None \<Rightarrow> c) name"

text \<open>
  \<open>getProjection(name)\<close>: the empty name stands for the default name \<open>'perspective'\<close>; a
  lookup that finds nothing falls back to the default provider; every other result of the
  lookup is returned as it is, an inherited member included.
\<close>

definition getProjection :: "string \<Rightarrow> projection lookup" where
  "getProjection name =
     (let lowerCaseName = (if name = [] then ''perspective'' else toLowerCase name) in
      case get_property projections lowerCaseName of
        Undefined \<Rightarrow> get_property projections (toLowerCase ''perspective'')
      | projection \<Rightarrow> projection)"

text \<open>
  \<open>projection.getShaderCode()\<close>: a provider returns its GLSL, named here by the provider;
  an inherited member has no such method and the call raises a \<open>TypeError\<close>. \<open>None\<close> is
  the falsy result of the lookup.
\<close>

definition getShaderCode :: "projection lookup \<Rightarrow> js_error + projection option" where
  "getShaderCode found =
     (case found of
        Own provider \<Rightarrow> Inr (Some provider)
      | Inherited \<Rightarrow> Inl TypeError
      | Undefined \<Rightarrow> Inr None)"

section \<open>The composition engine (core/ShaderManager.js)\<close>

text \<open>
  What WebGL decides. A linked program carries the uniforms and attributes that are active
  in it, so a location lookup is a question to the program; \<open>gl_link\<close> is the program
  that linking yields, or \<open>None\<close> when linking fails.
\<close>

record gl_program =
  prog_uniforms :: "string \<Rightarrow> bool"
  prog_has_a_position :: bool

record gl_env =
  gl_contextLost :: bool
  gl_compiles :: "string \<Rightarrow> bool"
  gl_creates_program :: bool
  gl_link :: "gl_program option"
  canvas_clientSize :: "nat \<times> nat"
  performance_now :: real

text \<open>
  The caches of the shader manager: the identifiers of the compiled shaders, the linked
  programs by name, the name of the active program; \<open>link_calls\<close> counts the calls of
  \<open>gl.linkProgram\<close>.
\<close>

record shader_manager =
  compiledShaders :: "string list"
  programs :: "(string \<times> gl_program) list"
  currentProgramName :: "string option"
  link_calls :: nat

text \<open>\<open>_compileShader\<close>: a cached identifier is not compiled again.\<close>

definition compileShader :: "gl_env \<Rightarrow> string \<Rightarrow> shader_manager \<Rightarrow> bool \<times> shader_manager" where
  "compileShader env shaderIdentifier sm =
     (if shaderIdentifier \<in> set (compiledShaders sm) then (True, sm)
      else if gl_compiles env shaderIdentifier
        then (True, sm\<lparr>compiledShaders := compiledShaders sm @ [shaderIdentifier]\<rparr>)
      else (False, sm))"

text \<open>
  \<open>_createProgram\<close>: a program of the same name is deleted with its location caches, then
  the new one is created and linked once.
\<close>

definition createProgram :: "gl_env \<Rightarrow> string \<Rightarrow> shader_manager \<Rightarrow> gl_program option \<times> shader_manager" where
  "createProgram env programName sm =
     (let sm1 = sm\<lparr>programs := filter (\<lambda>e. fst e \<noteq> programName) (programs sm)\<rparr> in
      if \<not> gl_creates_program env then (None, sm1)
      else
        let sm2 = sm1\<lparr>link_calls := Suc (link_calls sm1)\<rparr> in
        case gl_link env of
          None \<Rightarrow> (None, sm2)
        | Some program \<Rightarrow> (Some program, sm2\<lparr>programs := programs sm2 @ [(programName, program)]\<rparr>))"

text \<open>
  \<open>createDynamicProgram(programName, geometryTypeName, projectionMethodName)\<close>: the base
  vertex shader, the projection provider and its code, the fragment template with that
  code injected (compiled under an identifier that carries the projection name), and the
  link. The geometry name is ignored. The result is the program, \<open>None\<close> for the null
  that reports a failure, or the exception that leaves the method; the shader manager is
  returned as the statements before left it.
\<close>

definition createDynamicProgram ::
  "gl_env \<Rightarrow> string \<Rightarrow> string \<Rightarrow> string \<Rightarrow> shader_manager
     \<Rightarrow> (js_error + gl_program option) \<times> shader_manager" where
  "createDynamicProgram env programName geometryTypeName projectionMethodName sm =
     (case compileShader env ''base-vertex'' sm of
        (False, sm1) \<Rightarrow> (Inr None, sm1)
      | (True, sm1) \<Rightarrow>
          (case getShaderCode (getProjection projectionMethodName) of
             Inl e \<Rightarrow> (Inl e, sm1)
           | Inr None \<Rightarrow> (Inr None, sm1)
           | Inr (Some projectionGLSL) \<Rightarrow>
               (case compileShader env (''fragment-adapted-base-'' @ projectionMethodName) sm1 of
                  (False, sm2) \<Rightarrow> (Inr None, sm2)
                | (True, sm2) \<Rightarrow>
                    (case createProgram env programName sm2 of
                       (program, sm3) \<Rightarrow>
                         (Inr program,
                          if currentProgramName sm3 = Some programName \<and> program = None
                            then sm3\<lparr>currentProgramName := None\<rparr>
                          else sm3)))))"

definition useProgram :: "string \<Rightarrow> shader_manager \<Rightarrow> shader_manager" where
  "useProgram programName sm =
     (case map_of (programs sm) programName of
        Some program \<Rightarrow> sm\<lparr>currentProgramName := Some programName\<rparr>
      | None \<Rightarrow>
          if currentProgramName sm = Some programName then sm\<lparr>currentProgramName := None\<rparr>
          else sm)"

text \<open>
  \<open>getUniformLocation(name)\<close> and \<open>getAttributeLocation('a_position')\<close>: \<open>True\<close> when a
  location is returned, \<open>False\<close> for the null sentinel.
\<close>

definition getUniformLocation :: "shader_manager \<Rightarrow> string \<Rightarrow> bool" where
  "getUniformLocation sm name =
     (case currentProgramName sm of
        None \<Rightarrow> False
      | Some c \<Rightarrow>
          (case map_of (programs sm) c of
             None \<Rightarrow> False
           | Some program \<Rightarrow> prog_uniforms program name))"

definition getAttributeLocation :: "shader_manager \<Rightarrow> bool" where
  "getAttributeLocation sm =
     (case currentProgramName sm of
        None \<Rightarrow> False
      | Some c \<Rightarrow>
          (case map_of (programs sm) c of
             None \<Rightarrow> False
           | Some program \<Rightarrow> prog_has_a_position program))"

section \<open>The render-state engine (core/HypercubeCore.js)\<close>

text \<open>
  \<open>this.state\<close>. The dirty set is a list without repetitions in insertion order, as a
  JavaScript \<open>Set\<close> iterates. \<open>has_onError\<close> says whether an error callback is registered.
\<close>

record render_state =
  st_startTime :: real
  st_lastUpdateTime :: real
  st_deltaTime :: real
  st_time :: real
  st_resolution :: "nat \<times> nat"
  st_mouse :: "real \<times> real"
  st_geometryType :: string
  st_projectionMethod :: string
  st_dimensions :: real
  st_morphFactor :: real
  st_rotationSpeed :: real
  st_universeModifier :: real
  st_patternIntensity :: real
  st_gridDensity :: real
  st_glitchIntensity :: real
  st_plasmaSpeed :: real
  st_plasmaScale :: real
  st_moireIntensity :: real
  st_moireScale :: real
  st_currentNoteFrequency :: real
  st_audioBass :: real
  st_audioMid :: real
  st_audioHigh :: real
  st_primary :: "real list"
  st_secondary :: "real list"
  st_background :: "real list"
  needsShaderUpdate :: bool
  dirtyUniforms :: "string list"
  isRendering :: bool
  animationFrameId :: "nat option"
  shaderProgramName :: string
  has_onError :: bool

text \<open>
  The engine: its state, the canvas size, the cached attribute location, its shader manager,
  and what it has done so far: the error callbacks invoked, the uniforms uploaded, the draw
  calls issued, the animation frames requested, and the exceptions that left a frame
  callback uncaught (the browser reports them; the rest of that callback did not run).
\<close>

record core =
  state :: render_state
  canvasSize :: "nat \<times> nat"
  aPositionLoc :: bool
  shaderManager :: shader_manager
  onError_calls :: nat
  uploads :: "string list"
  draw_calls :: nat
  next_frame :: nat
  uncaught :: "js_error list"

text \<open>\<open>Set.prototype.add\<close>.\<close>

definition dirty_add :: "string \<Rightarrow> string list \<Rightarrow> string list" where
  "dirty_add name dirty = (if name \<in> set dirty then dirty else dirty @ [name])"

text \<open>\<open>Object.keys(DEFAULT_STATE)\<close>.\<close>

definition state_keys :: "string list" where
  "state_keys =
     [''startTime'', ''lastUpdateTime'', ''deltaTime'', ''time'', ''resolution'', ''mouse'',
      ''geometryType'', ''projectionMethod'', ''dimensions'', ''morphFactor'',
      ''rotationSpeed'', ''universeModifier'', ''patternIntensity'', ''gridDensity'',
      ''glitchIntensity'', ''plasmaSpeed'', ''plasmaScale'', ''moireIntensity'', ''moireScale'',
      ''currentNoteFrequency'', ''audioLevels'', ''colorScheme'', ''needsShaderUpdate'',
      ''_dirtyUniforms'', ''isRendering'', ''animationFrameId'', ''shaderProgramName'',
      ''callbacks'']"

text \<open>
  The dirty set that the constructor, \<open>start()\<close> and a successful shader update install:
  \<open>new Set(Object.keys(DEFAULT_STATE))\<close> and the thirteen names added after it.
\<close>

definition all_dirty :: "string list" where
  "all_dirty =
     fold dirty_add
       [''u_resolution'', ''u_primaryColor'', ''u_secondaryColor'', ''u_backgroundColor'',
        ''u_audioBass'', ''u_audioMid'', ''u_audioHigh'', ''u_dimension'', ''u_currentNoteFreq'',
        ''u_plasmaSpeed'', ''u_plasmaScale'', ''u_moireIntensity'', ''u_moireScale'']
       state_keys"

text \<open>
  The uniform names that the switch of \<open>_setUniforms\<close> uploads, and with \<open>u_time\<close> all
  the uniforms the engine knows how to set.
\<close>

definition switch_uniforms :: "string list" where
  "switch_uniforms =
     [''u_resolution'', ''u_mouse'', ''u_dimension'', ''u_morphFactor'', ''u_rotationSpeed'',
      ''u_universeModifier'', ''u_patternIntensity'', ''u_gridDensity'', ''u_glitchIntensity'',
      ''u_plasmaSpeed'', ''u_plasmaScale'', ''u_moireIntensity'', ''u_moireScale'',
      ''u_currentNoteFreq'', ''u_primaryColor'', ''u_secondaryColor'', ''u_backgroundColor'',
      ''u_audioBass'', ''u_audioMid'', ''u_audioHigh'']"

definition known_uniforms :: "string list" where
  "known_uniforms = ''u_time'' # switch_uniforms"

subsection \<open>Updating parameters\<close>

text \<open>
  One entry of the object given to \<open>updateParameters\<close>: a visual parameter with a value of
  the type its state property has, a partial \<open>audioLevels\<close> or \<open>colorScheme\<close> record, or
  a key that is no property of the state (such keys are skipped). The bookkeeping
  properties of the state are not offered as keys.
\<close>

datatype param =
    P_geometryType string
  | P_projectionMethod string
  | P_dimensions real
  | P_morphFactor real
  | P_rotationSpeed real
  | P_universeModifier real
  | P_patternIntensity real
  | P_gridDensity real
  | P_glitchIntensity real
  | P_plasmaSpeed real
  | P_plasmaScale real
  | P_moireIntensity real
  | P_moireScale real
  | P_currentNoteFrequency real
  | P_mouse "real \<times> real"
  | P_audioLevels "real option" "real option" "real option"
  | P_colorScheme "real list option" "real list option" "real list option"
  | P_other string

definition mark_dirty :: "string \<Rightarrow> render_state \<Rightarrow> render_state" where
  "mark_dirty name st = st\<lparr>dirtyUniforms := dirty_add name (dirtyUniforms st)\<rparr>"

text \<open>
  A property whose uniform is marked dirty when its value changes (the keys that start
  with plasma, moire, glitch, rotation, morph, grid, universe or pattern, and the two
  renamed ones).
\<close>

definition set_uniform_property ::
  "(render_state \<Rightarrow> 'a) \<Rightarrow> ('a \<Rightarrow> render_state \<Rightarrow> render_state) \<Rightarrow> string \<Rightarrow> 'a
     \<Rightarrow> render_state \<Rightarrow> render_state" where
  "set_uniform_property get put uniformName v st =
     (if get st \<noteq> v then mark_dirty uniformName (put v st) else st)"

text \<open>A sub-key of \<open>audioLevels\<close> or \<open>colorScheme\<close>: stored and marked on a change of value.\<close>

definition set_sub_property ::
  "(render_state \<Rightarrow> 'a) \<Rightarrow> ('a \<Rightarrow> render_state \<Rightarrow> render_state) \<Rightarrow> string \<Rightarrow> 'a option
     \<Rightarrow> render_state \<Rightarrow> render_state" where
  "set_sub_property get put uniformName v st =
     (case v of
        None \<Rightarrow> st
      | Some x \<Rightarrow> if get st \<noteq> x then mark_dirty uniformName (put x st) else st)"

text \<open>
  The body of the loop of \<open>updateParameters\<close> for one key; the flag is the local
  \<open>shaderNeedsUpdate\<close>.
\<close>

fun update_key :: "param \<Rightarrow> render_state \<times> bool \<Rightarrow> render_state \<times> bool" where
  "update_key (P_geometryType g) (st, flag) =
     (if st_geometryType st \<noteq> g then (st\<lparr>st_geometryType := g\<rparr>, True) else (st, flag))"
| "update_key (P_projectionMethod m) (st, flag) =
     (if st_projectionMethod st \<noteq> m then (st\<lparr>st_projectionMethod := m\<rparr>, True)
      else (st, flag))"
| "update_key (P_dimensions v) (st, flag) =
     (set_uniform_property st_dimensions (\<lambda>x. st_dimensions_update (\<lambda>_. x)) ''u_dimension'' v st,
      flag)"
| "update_key (P_morphFactor v) (st, flag) =
     (set_uniform_property st_morphFactor (\<lambda>x. st_morphFactor_update (\<lambda>_. x))
        ''u_morphFactor'' v st, flag)"
| "update_key (P_rotationSpeed v) (st, flag) =
     (set_uniform_property st_rotationSpeed (\<lambda>x. st_rotationSpeed_update (\<lambda>_. x))
        ''u_rotationSpeed'' v st, flag)"
| "update_key (P_universeModifier v) (st, flag) =
     (set_uniform_property st_universeModifier (\<lambda>x. st_universeModifier_update (\<lambda>_. x))
        ''u_universeModifier'' v st, flag)"
| "update_key (P_patternIntensity v) (st, flag) =
     (set_uniform_property st_patternIntensity (\<lambda>x. st_patternIntensity_update (\<lambda>_. x))
        ''u_patternIntensity'' v st, flag)"
| "update_key (P_gridDensity v) (st, flag) =
     (set_uniform_property st_gridDensity (\<lambda>x. st_gridDensity_update (\<lambda>_. x))
        ''u_gridDensity'' v st, flag)"
| "update_key (P_glitchIntensity v) (st, flag) =
     (set_uniform_property st_glitchIntensity (\<lambda>x. st_glitchIntensity_update (\<lambda>_. x))
        ''u_glitchIntensity'' v st, flag)"
| "update_key (P_plasmaSpeed v) (st, flag) =
     (set_uniform_property st_plasmaSpeed (\<lambda>x. st_plasmaSpeed_update (\<lambda>_. x))
        ''u_plasmaSpeed'' v st, flag)"
| "update_key (P_plasmaScale v) (st, flag) =
     (set_uniform_property st_plasmaScale (\<lambda>x. st_plasmaScale_update (\<lambda>_. x))
        ''u_plasmaScale'' v st, flag)"
| "update_key (P_moireIntensity v) (st, flag) =
     (set_uniform_property st_moireIntensity (\<lambda>x. st_moireIntensity_update (\<lambda>_. x))
        ''u_moireIntensity'' v st, flag)"
| "update_key (P_moireScale v) (st, flag) =
     (set_uniform_property st_moireScale (\<lambda>x. st_moireScale_update (\<lambda>_. x))
        ''u_moireScale'' v st, flag)"
| "update_key (P_currentNoteFrequency v) (st, flag) =
     (set_uniform_property st_currentNoteFrequency
        (\<lambda>x. st_currentNoteFrequency_update (\<lambda>_. x)) ''u_currentNoteFreq'' v st, flag)"
| "update_key (P_mouse m) (st, flag) = (st\<lparr>st_mouse := m\<rparr>, flag)"
| "update_key (P_audioLevels b m h) (st, flag) =
     (set_sub_property st_audioHigh (\<lambda>x. st_audioHigh_update (\<lambda>_. x)) ''u_audioHigh'' h
        (set_sub_property st_audioMid (\<lambda>x. st_audioMid_update (\<lambda>_. x)) ''u_audioMid'' m
           (set_sub_property st_audioBass (\<lambda>x. st_audioBass_update (\<lambda>_. x)) ''u_audioBass'' b
              st)), flag)"
| "update_key (P_colorScheme a b c) (st, flag) =
     (set_sub_property st_background (\<lambda>x. st_background_update (\<lambda>_. x)) ''u_backgroundColor'' c
        (set_sub_property st_secondary (\<lambda>x. st_secondary_update (\<lambda>_. x)) ''u_secondaryColor'' b
           (set_sub_property st_primary (\<lambda>x. st_primary_update (\<lambda>_. x)) ''u_primaryColor'' a
              st)), flag)"
| "update_key (P_other k) (st, flag) = (st, flag)"

text \<open>\<open>updateParameters(newParams)\<close>: the keys in their order, then the rebuild flag.\<close>

definition updateParameters :: "param list \<Rightarrow> core \<Rightarrow> core" where
  "updateParameters newParams c =
     (case fold update_key newParams (state c, False) of
        (st, shaderNeedsUpdate) \<Rightarrow>
          c\<lparr>state := (if shaderNeedsUpdate then st\<lparr>needsShaderUpdate := True\<rparr> else st)\<rparr>)"

subsection \<open>The frame\<close>

definition stop :: "core \<Rightarrow> core" where
  "stop c =
     (if \<not> isRendering (state c) then c
      else c\<lparr>state := (state c)\<lparr>isRendering := False, animationFrameId := None\<rparr>\<rparr>)"

text \<open>The error callback, when one is registered.\<close>

definition onError :: "core \<Rightarrow> core" where
  "onError c = (if has_onError (state c) then c\<lparr>onError_calls := Suc (onError_calls c)\<rparr> else c)"

definition checkResize :: "gl_env \<Rightarrow> core \<Rightarrow> core" where
  "checkResize env c =
     (if canvasSize c \<noteq> canvas_clientSize env
        then c\<lparr>canvasSize := canvas_clientSize env,
               state := mark_dirty ''u_resolution''
                          ((state c)\<lparr>st_resolution := canvas_clientSize env\<rparr>)\<rparr>
      else c)"

text \<open>
  \<open>_updateShaderIfNeeded()\<close>, with its result. On failure the error callback is invoked and
  the loop stopped; on success the flag is cleared, the program activated, the attribute
  location cached again and the dirty set reinstalled. An exception of
  \<open>createDynamicProgram\<close> is not caught here.
\<close>

definition updateShaderIfNeeded :: "gl_env \<Rightarrow> core \<Rightarrow> (js_error + bool) \<times> core" where
  "updateShaderIfNeeded env c =
     (if \<not> needsShaderUpdate (state c) then (Inr True, c)
      else
        case createDynamicProgram env (shaderProgramName (state c)) (st_geometryType (state c))
               (st_projectionMethod (state c)) (shaderManager c) of
          (Inl e, sm) \<Rightarrow> (Inl e, c\<lparr>shaderManager := sm\<rparr>)
        | (Inr None, sm) \<Rightarrow> (Inr False, stop (onError (c\<lparr>shaderManager := sm\<rparr>)))
        | (Inr (Some program), sm) \<Rightarrow>
            (let sm1 = useProgram (shaderProgramName (state c)) sm
             in (Inr True,
                 c\<lparr>shaderManager := sm1,
                   aPositionLoc := getAttributeLocation sm1,
                   state := (state c)\<lparr>needsShaderUpdate := False, dirtyUniforms := all_dirty\<rparr>\<rparr>)))"

text \<open>
  Whether \<open>_setUniforms\<close> passes a value to WebGL for a dirty name whose location is found:
  the cases of the switch, and in the default case a name \<open>u_\<close> + key for a numeric
  property of the state.
\<close>

definition uploadable :: "render_state \<Rightarrow> string \<Rightarrow> bool" where
  "uploadable st uniformName =
     (uniformName \<in> set switch_uniforms
      \<or> drop 2 uniformName \<in> set
           [''startTime'', ''lastUpdateTime'', ''deltaTime'', ''time'', ''dimensions'',
            ''morphFactor'', ''rotationSpeed'', ''universeModifier'', ''patternIntensity'',
            ''gridDensity'', ''glitchIntensity'', ''plasmaSpeed'', ''plasmaScale'',
            ''moireIntensity'', ''moireScale'', ''currentNoteFrequency'']
      \<or> (drop 2 uniformName = ''animationFrameId'' \<and> animationFrameId st \<noteq> None))"

text \<open>
  \<open>_setUniforms()\<close>: the time uniform first, then every dirty name but \<open>u_time\<close>: one whose
  location is found is uploaded if it can be and leaves the dirty set, one whose location
  is null stays.
\<close>

definition setUniforms :: "core \<Rightarrow> core" where
  "setUniforms c =
     (let sm = useProgram (shaderProgramName (state c)) (shaderManager c);
          timeLoc = getUniformLocation sm ''u_time'';
          dirty = (if timeLoc then dirtyUniforms (state c)
                   else dirty_add ''u_time'' (dirtyUniforms (state c)));
          sent = filter (\<lambda>n. n \<noteq> ''u_time'' \<and> getUniformLocation sm n \<and> uploadable (state c) n)
                   dirty;
          kept = filter (\<lambda>n. n = ''u_time'' \<or> \<not> getUniformLocation sm n) dirty
      in c\<lparr>shaderManager := sm,
           uploads := uploads c @ (if timeLoc then [''u_time''] else []) @ sent,
           state := (state c)\<lparr>dirtyUniforms := kept\<rparr>\<rparr>)"

text \<open>
  \<open>_render(timestamp)\<close>: one tick of the render loop, as the browser runs it. Nothing in
  \<open>_render\<close> catches an exception of \<open>_updateShaderIfNeeded\<close>: it ends the callback where
  it is raised, before the uniforms, the draw call and the request of the next frame.
\<close>

definition render :: "gl_env \<Rightarrow> real \<Rightarrow> core \<Rightarrow> core" where
  "render env timestamp c =
     (if \<not> isRendering (state c) then c
      else if gl_contextLost env then onError (stop c)
      else
        let st = state c;
            startTime = (if st_startTime st = 0 then timestamp else st_startTime st);
            currentTime = (timestamp - startTime) * 0.001;
            c1 = c\<lparr>state := st\<lparr>st_startTime := startTime,
                                 st_deltaTime := currentTime - st_time st,
                                 st_time := currentTime,
                                 st_lastUpdateTime := timestamp\<rparr>\<rparr>;
            c2 = checkResize env c1
        in case updateShaderIfNeeded env c2 of
             (Inl e, c3) \<Rightarrow> c3\<lparr>uncaught := uncaught c3 @ [e]\<rparr>
           | (Inr False, c3) \<Rightarrow> c3
           | (Inr True, c3) \<Rightarrow>
               (let c4 = setUniforms c3;
                    c5 = (if aPositionLoc c4 then c4\<lparr>draw_calls := Suc (draw_calls c4)\<rparr>
                          else c4\<lparr>aPositionLoc := getAttributeLocation (shaderManager c4)\<rparr>)
                in c5\<lparr>state := (state c5)\<lparr>animationFrameId := Some (next_frame c5)\<rparr>,
                      next_frame := Suc (next_frame c5)\<rparr>))"

text \<open>\<open>start()\<close>.\<close>

definition start :: "gl_env \<Rightarrow> core \<Rightarrow> core" where
  "start env c =
     (if isRendering (state c) then c
      else if gl_contextLost env then c
      else c\<lparr>state := (state c)\<lparr>isRendering := True,
                                 st_startTime := performance_now env,
                                 st_time := 0,
                                 st_lastUpdateTime := performance_now env,
                                 dirtyUniforms := all_dirty,
                                 animationFrameId := Some (next_frame c)\<rparr>,
             next_frame := Suc (next_frame c)\<rparr>)"

text \<open>
  The constructor with default options: \<open>DEFAULT_STATE\<close>, every key and the thirteen added
  names dirty, and the first shader build inside the constructor's try block, whose catch
  block passes the exception to the error callback.
\<close>

definition DEFAULT_STATE :: render_state where
  "DEFAULT_STATE =
     \<lparr> st_startTime = 0, st_lastUpdateTime = 0, st_deltaTime = 0, st_time = 0,
       st_resolution = (0, 0), st_mouse = (0.5, 0.5),
       st_geometryType = ''hypercube'', st_projectionMethod = ''perspective'',
       st_dimensions = 4.0, st_morphFactor = 0.5, st_rotationSpeed = 0.3,
       st_universeModifier = 1.0, st_patternIntensity = 1.0, st_gridDensity = 8.0,
       st_glitchIntensity = 0.0, st_plasmaSpeed = 0.5, st_plasmaScale = 1.0,
       st_moireIntensity = 0.0, st_moireScale = 5.0, st_currentNoteFrequency = 440.0,
       st_audioBass = 0, st_audioMid = 0, st_audioHigh = 0,
       st_primary = [1.0, 0.2, 0.8], st_secondary = [0.2, 1.0, 1.0],
       st_background = [0.05, 0.0, 0.2, 1.0],
       needsShaderUpdate = False, dirtyUniforms = [], isRendering = False,
       animationFrameId = None, shaderProgramName = ''maleficarumViz'', has_onError = False \<rparr>"

definition new_HypercubeCore :: "gl_env \<Rightarrow> bool \<Rightarrow> nat \<times> nat \<Rightarrow> core" where
  "new_HypercubeCore env with_onError canvas =
     (case updateShaderIfNeeded env
        \<lparr> state = DEFAULT_STATE\<lparr>dirtyUniforms := all_dirty, needsShaderUpdate := True,
                                 has_onError := with_onError\<rparr>,
          canvasSize = canvas, aPositionLoc = False,
          shaderManager = \<lparr> compiledShaders = [], programs = [], currentProgramName = None,
                            link_calls = 0 \<rparr>,
          onError_calls = 0, uploads = [], draw_calls = 0, next_frame = 1, uncaught = [] \<rparr> of
        (Inl e, c) \<Rightarrow> onError c
      | (Inr built, c) \<Rightarrow> c)"

section \<open>Concrete inputs\<close>

definition example_sound_params :: sound_params where
  "example_sound_params =
     \<lparr> sp_oscillator = \<lparr> osc_type = ''square'', osc_gain = 0.4 \<rparr>,
       sp_filter = \<lparr> filter_type = ''bandpass'', filter_frequency = 900, filter_Q = 6.0 \<rparr>,
       sp_envelope = \<lparr> env_attack = 0.01, env_release = 6 \<rparr>,
       sp_effects =
         \<lparr> fx_delay = Some \<lparr> delay_active = True, delay_time = 0.15, delay_feedback = 0.6 \<rparr>,
           fx_reverb = Some \<lparr> reverb_active = False, reverb_decay = 1.5, reverb_wet = 0.3 \<rparr>,
           fx_glitch = Some \<lparr> glitch_active = True \<rparr>,
           fx_arpeggiator =
             Some \<lparr> arpp_active = True, arpp_rate = 10, arpp_pattern = [0, 3, 7, 10] \<rparr> \<rparr> \<rparr>"

text \<open>
  The same parameters with the three effect groups that decide the projection set to the
  given flags and levels.
\<close>

definition routing_params :: "bool \<Rightarrow> real \<Rightarrow> bool \<Rightarrow> real \<Rightarrow> bool \<Rightarrow> sound_params" where
  "routing_params delay_on feedback reverb_on wet arp_on =
     example_sound_params
       \<lparr>sp_effects :=
          \<lparr> fx_delay = Some \<lparr> delay_active = delay_on, delay_time = 0.15, delay_feedback = feedback \<rparr>,
            fx_reverb = Some \<lparr> reverb_active = reverb_on, reverb_decay = 1.5, reverb_wet = wet \<rparr>,
            fx_glitch = Some \<lparr> glitch_active = True \<rparr>,
            fx_arpeggiator =
              Some \<lparr> arpp_active = arp_on, arpp_rate = 10, arpp_pattern = [0, 3, 7, 10] \<rparr> \<rparr>\<rparr>"

definition example_levels :: audio_levels where
  "example_levels = \<lparr> lv_bass = 0.5, lv_mid = 0.25, lv_high = 0.75, lv_frequency = Some 440 \<rparr>"

definition example_ui :: ui_state where
  "example_ui = \<lparr> glitchEnabled = True, xyPad_active = False \<rparr>"

text \<open>
  The scenario of the specification: an initialized module whose sequencer is on with
  pattern \<open>[0, 4, 7]\<close> at rate 8, about to start on the base note A4.
\<close>

definition arp_scenario :: audio_state where
  "arp_scenario = (new_SoundModule ''vaporwave'')
     \<lparr>isInitialized := True,
      arp := \<lparr>arp_active = True, arp_intervalId = None, arp_rate = 8, arp_pattern = [0, 4, 7],
              arp_currentStep = 0, arp_baseNote = Some ''A4''\<rparr>\<rparr>"

definition browser :: platform where
  "browser = \<lparr>nodes_ok = True, strict_disconnect = True\<rparr>"

text \<open>
  A module after initialization, with the audio context running, the arpeggiator toggled
  on and the key A4 pressed: the sequencer runs.
\<close>

definition running_arp :: audio_state where
  "running_arp =
     step browser (StartNote ''A4'')
       (step browser (ToggleEffect ''arpeggiator'' True)
         (step browser (SetContextRunning True)
           (step browser (InitializeAudio True True True) (new_SoundModule ''vaporwave''))))"

text \<open>
  A module with the \<open>vaporwave\<close> preset (delay and reverb on), initialized with both effect
  nodes, the audio context running, and the key A4 pressed: a sustained voice sounds.
\<close>

definition vaporwave_voice :: audio_state where
  "vaporwave_voice =
     step browser (StartNote ''A4'')
       (step browser (SetContextRunning True)
         (step browser (InitializeAudio True True True) (new_SoundModule ''vaporwave'')))"

text \<open>A point off the origin, and the point on the w axis at the pole of the projection.\<close>

definition example_point :: vec4 where
  "example_point = \<lparr>px = 1, py = 0, pz = 0, pw = 1\<rparr>"

definition origin_at_pole :: "real \<Rightarrow> real \<Rightarrow> vec4" where
  "origin_at_pole b h = \<lparr>px = 0, py = 0, pz = 0, pw = dynamicPoleW b h\<rparr>"

text \<open>
  A WebGL context in which everything succeeds and whose linked program has every uniform
  the engine knows; one in which linking fails; an engine constructed on the first with an
  error callback, and the same engine after \<open>start()\<close>.
\<close>

definition good_gl :: gl_env where
  "good_gl =
     \<lparr> gl_contextLost = False, gl_compiles = (\<lambda>_. True), gl_creates_program = True,
       gl_link = Some \<lparr> prog_uniforms = (\<lambda>n. n \<in> set known_uniforms),
                        prog_has_a_position = True \<rparr>,
       canvas_clientSize = (800, 600), performance_now = 1000 \<rparr>"

definition failing_gl :: gl_env where
  "failing_gl = good_gl\<lparr>gl_link := None\<rparr>"

definition fresh_core :: core where
  "fresh_core = new_HypercubeCore good_gl True (800, 600)"

definition started_core :: core where
  "started_core = start good_gl fresh_core"

text \<open>
  The started engine after \<open>updateParameters({geometryType: 'hypersphere'})\<close>, and after
  \<open>updateParameters({projectionMethod: 'constructor'})\<close>.
\<close>

definition hypersphere_core :: core where
  "hypersphere_core = updateParameters [P_geometryType ''hypersphere''] started_core"

definition constructor_core :: core where
  "constructor_core = updateParameters [P_projectionMethod ''constructor''] started_core"

section \<open>Properties of the mapper\<close>

lemma clamp_is_spec_clamp: "lo \<le> hi \<Longrightarrow> clamp x lo hi = spec_clamp x lo hi"
  by (auto simp: clamp_def spec_clamp_def)

text \<open>
  Claim C1. For every input (sound parameters with their effect groups, audio levels,
  glitch toggle) the mapper returns the reference definition of the specification: the
  five numeric outputs are the stated clamped expressions of the resonance, the attack,
  the release, the band levels and the arpeggiator's flag and rate, and the projection
  name follows the priority chain over the delay's flag and feedback, the reverb's flag
  and wet level and the arpeggiator's flag, where the feedback is high above 0.65 and the
  wet level above 0.75.
\<close>

theorem mapSoundToVisuals_refines_spec:
  "(let v = mapSoundToVisuals ui
              \<lparr> sp_oscillator = oscillator,
                sp_filter = \<lparr> filter_type = ftype, filter_frequency = cutoff, filter_Q = Q \<rparr>,
                sp_envelope = \<lparr> env_attack = attack, env_release = release \<rparr>,
                sp_effects =
                  \<lparr> fx_delay = Some \<lparr> delay_active = delay_on, delay_time = time,
                                      delay_feedback = feedback \<rparr>,
                    fx_reverb = Some \<lparr> reverb_active = reverb_on, reverb_decay = decay,
                                       reverb_wet = wet \<rparr>,
                    fx_glitch = glitch,
                    fx_arpeggiator = Some \<lparr> arpp_active = arp_on, arpp_rate = rate,
                                            arpp_pattern = pattern \<rparr> \<rparr> \<rparr>
              \<lparr> lv_bass = bass, lv_mid = mid, lv_high = high, lv_frequency = frequency \<rparr>
    in morphFactor v = spec_morphFactor Q attack mid
     \<and> glitchIntensity v = spec_glitchIntensity (glitchEnabled ui) high Q
     \<and> rotationSpeed v = spec_rotationSpeed mid high arp_on rate
     \<and> dimension v = spec_dimension bass release
     \<and> gridDensity v = spec_gridDensity bass mid
     \<and> projectionMethod v =
         spec_projectionName 0.65 0.75 delay_on feedback reverb_on wet arp_on)"
  by (simp add: mapSoundToVisuals_def Let_def clamp_is_spec_clamp spec_morphFactor_def
      spec_glitchIntensity_def spec_rotationSpeed_def spec_dimension_def spec_gridDensity_def
      spec_projectionName_def arp_is_active_def arp_rate_of_def delayActive_def
      highFeedback_def reverbActive_def highWet_def)

text \<open>
  The theorem at the parameters of the \<open>grimoire_pulse\<close> preset with the release
  lengthened to 6 seconds (so that the dimension reaches its upper bound), with levels
  bass 0.5, mid 0.25, high 0.75 and the glitch toggle on; and the projection name on both
  sides of each threshold: a feedback of 0.66 is high and 0.65 is not, a wet level of 0.76
  is high and 0.75 is not.
\<close>

theorem mapSoundToVisuals_refines_spec_witness:
  "morphFactor (mapSoundToVisuals example_ui example_sound_params example_levels) = 0.3915
   \<and> glitchIntensity (mapSoundToVisuals example_ui example_sound_params example_levels) = 0.68
   \<and> rotationSpeed (mapSoundToVisuals example_ui example_sound_params example_levels) = 0.85
   \<and> dimension (mapSoundToVisuals example_ui example_sound_params example_levels) = 4
   \<and> gridDensity (mapSoundToVisuals example_ui example_sound_params example_levels) = 11.5
   \<and> projectionMethod (mapSoundToVisuals example_ui example_sound_params example_levels)
       = ''stereographic''
   \<and> projectionMethod
         (mapSoundToVisuals example_ui (routing_params True 0.66 True 0.9 False) example_levels)
       = ''stereographic''
   \<and> projectionMethod
         (mapSoundToVisuals example_ui (routing_params True 0.65 True 0.9 False) example_levels)
       = ''perspective''
   \<and> projectionMethod
         (mapSoundToVisuals example_ui (routing_params True 0.65 True 0.76 True) example_levels)
       = ''perspective''
   \<and> projectionMethod
         (mapSoundToVisuals example_ui (routing_params True 0.65 True 0.75 True) example_levels)
       = ''stereographic''
   \<and> projectionMethod
         (mapSoundToVisuals example_ui (routing_params True 0.65 True 0.75 False) example_levels)
       = ''orthographic''"
  using
    mapSoundToVisuals_refines_spec [of example_ui "sp_oscillator example_sound_params"
      "''bandpass''" 900 6 "0.01" 6 True "0.15" "0.6" False "1.5" "0.3" "Some \<lparr> glitch_active = True \<rparr>"
      True 10 "[0, 3, 7, 10]" "0.5" "0.25" "0.75" "Some 440"]
    mapSoundToVisuals_refines_spec [of example_ui "sp_oscillator example_sound_params"
      "''bandpass''" 900 6 "0.01" 6 True "0.15" "0.66" True "1.5" "0.9" "Some \<lparr> glitch_active = True \<rparr>"
      False 10 "[0, 3, 7, 10]" "0.5" "0.25" "0.75" "Some 440"]
    mapSoundToVisuals_refines_spec [of example_ui "sp_oscillator example_sound_params"
      "''bandpass''" 900 6 "0.01" 6 True "0.15" "0.65" True "1.5" "0.9" "Some \<lparr> glitch_active = True \<rparr>"
      False 10 "[0, 3, 7, 10]" "0.5" "0.25" "0.75" "Some 440"]
    mapSoundToVisuals_refines_spec [of example_ui "sp_oscillator example_sound_params"
      "''bandpass''" 900 6 "0.01" 6 True "0.15" "0.65" True "1.5" "0.76" "Some \<lparr> glitch_active = True \<rparr>"
      True 10 "[0, 3, 7, 10]" "0.5" "0.25" "0.75" "Some 440"]
    mapSoundToVisuals_refines_spec [of example_ui "sp_oscillator example_sound_params"
      "''bandpass''" 900 6 "0.01" 6 True "0.15" "0.65" True "1.5" "0.75" "Some \<lparr> glitch_active = True \<rparr>"
      True 10 "[0, 3, 7, 10]" "0.5" "0.25" "0.75" "Some 440"]
    mapSoundToVisuals_refines_spec [of example_ui "sp_oscillator example_sound_params"
      "''bandpass''" 900 6 "0.01" 6 True "0.15" "0.65" True "1.5" "0.75" "Some \<lparr> glitch_active = True \<rparr>"
      False 10 "[0, 3, 7, 10]" "0.5" "0.25" "0.75" "Some 440"]
  by (simp add: Let_def example_ui_def example_sound_params_def example_levels_def
      routing_params_def spec_morphFactor_def spec_glitchIntensity_def spec_rotationSpeed_def
      spec_dimension_def spec_gridDensity_def spec_projectionName_def spec_clamp_def)

text \<open>
  An effect group that is missing reads as inactive (\<open>effects.delay?.active\<close> is then
  \<open>undefined\<close>, and no level of a missing group exceeds a threshold): the chain and the
  rotation speed for arbitrary parameters, and the projection without the three groups,
  which is the last of the chain.
\<close>

lemma mapSoundToVisuals_any_groups:
  "projectionMethod (mapSoundToVisuals ui sp lv) =
     spec_projectionName 0.65 0.75
       (case fx_delay (sp_effects sp) of None \<Rightarrow> False | Some d \<Rightarrow> delay_active d)
       (case fx_delay (sp_effects sp) of None \<Rightarrow> 0 | Some d \<Rightarrow> delay_feedback d)
       (case fx_reverb (sp_effects sp) of None \<Rightarrow> False | Some r \<Rightarrow> reverb_active r)
       (case fx_reverb (sp_effects sp) of None \<Rightarrow> 0 | Some r \<Rightarrow> reverb_wet r)
       (case fx_arpeggiator (sp_effects sp) of None \<Rightarrow> False | Some a \<Rightarrow> arpp_active a)
   \<and> rotationSpeed (mapSoundToVisuals ui sp lv) =
     spec_rotationSpeed (lv_mid lv) (lv_high lv)
       (case fx_arpeggiator (sp_effects sp) of None \<Rightarrow> False | Some a \<Rightarrow> arpp_active a)
       (case fx_arpeggiator (sp_effects sp) of None \<Rightarrow> 0 | Some a \<Rightarrow> arpp_rate a)"
  by (auto simp: mapSoundToVisuals_def Let_def clamp_is_spec_clamp spec_rotationSpeed_def
      spec_projectionName_def arp_is_active_def arp_rate_of_def delayActive_def
      highFeedback_def reverbActive_def highWet_def split: option.split)

lemma mapSoundToVisuals_missing_groups:
  "projectionMethod
     (mapSoundToVisuals ui
        (sp\<lparr>sp_effects := \<lparr> fx_delay = None, fx_reverb = None, fx_glitch = glitch,
                              fx_arpeggiator = None \<rparr>\<rparr>) lv) = ''orthographic''"
  by (simp add: mapSoundToVisuals_def Let_def arp_is_active_def delayActive_def
      reverbActive_def)

section \<open>Properties of the arpeggiator steps\<close>

lemma noteFrequencies_pos: "noteFrequencies n = Some f \<Longrightarrow> 0 < f"
  by (auto simp: noteFrequencies_def split: if_splits)

lemma arpStepFrequency_valid:
  assumes "arp_active (arp s)" "arp_pattern (arp s) \<noteq> []"
    "arp_baseNote (arp s) = Some n" "noteFrequencies n = Some f"
  shows "arpStepFrequency s =
    Some (f * semitoneRatio powr real_of_int
      (arp_pattern (arp s) ! (arp_currentStep (arp s) mod length (arp_pattern (arp s)))))"
  using assms noteFrequencies_pos[OF assms(4)]
  by (simp add: arpStepFrequency_def Let_def)

lemma arpStepFrequency_nonzero:
  assumes "arpStepFrequency s = Some x"
  shows "x \<noteq> 0"
  using assms
  by (auto simp: arpStepFrequency_def Let_def semitoneRatio_def split: if_splits option.splits)

text \<open>
  A note of the table passes the test of \<open>startNote\<close>; so does the name of a member of
  \<open>Object.prototype\<close>, for which no frequency exists; any other name is refused.
\<close>

lemma note_truthy_table: "noteFrequencies n = Some f \<Longrightarrow> note_truthy n"
  using noteFrequencies_pos[of n f] by (simp add: note_truthy_def get_property_def)

lemma note_truthy_examples:
  "note_truthy ''A4''" "note_truthy ''constructor''" "\<not> note_truthy ''H4''" "\<not> note_truthy ''''"
  by (simp_all add: note_truthy_def get_property_def noteFrequencies_def
      object_prototype_members_def)

lemma arpStepFrequency_state_valid:
  assumes "arpStepFrequency s = Some x"
  shows "arpStateValid s"
proof -
  have e: "noteFrequencies [] = None" by (simp add: noteFrequencies_def)
  from assms e show ?thesis
    by (auto simp: arpStepFrequency_def arpStateValid_def note_truthy_def get_property_def
        Let_def split: if_splits option.splits)
qed

lemma arp_playArpNote [simp]: "arp (playArpNote pf x s) = arp s"
  by (simp add: playArpNote_def Let_def cleanupCurrentNoteNodes_def)

lemma arpStep_valid:
  assumes "arpStepFrequency s = Some x"
  shows "arp (arpStep pf s) = (arp s)\<lparr>arp_currentStep := Suc (arp_currentStep (arp s))\<rparr>"
  using assms arpStepFrequency_state_valid[OF assms] by (simp add: arpStep_def Let_def)

lemma arpStep_plays:
  assumes "arpStepFrequency s = Some x" "nodes_ok pf"
  shows "as_currentNoteFrequency (arpStep pf s) = Some x"
    and "map_option v_frequency (currentVoice (arpStep pf s)) = Some x"
  using assms arpStepFrequency_nonzero[OF assms(1)] arpStepFrequency_state_valid[OF assms(1)]
  by (simp_all add: arpStep_def Let_def playArpNote_def cleanupCurrentNoteNodes_def)

lemma semitone_pow: "semitoneRatio powr real_of_int k = 2 powr (real_of_int k / 12)"
  by (simp add: semitoneRatio_def powr_powr)

text \<open>While the state stays valid, the steps only advance the step counter.\<close>

lemma arpSteps_arp:
  assumes "arp_active (arp s)" "arp_pattern (arp s) \<noteq> []"
    "arp_baseNote (arp s) = Some n" "noteFrequencies n = Some f"
  shows "arp (arpSteps pf k s) = (arp s)\<lparr>arp_currentStep := arp_currentStep (arp s) + k\<rparr>"
proof (induction k)
  case 0
  show ?case by simp
next
  case (Suc k)
  let ?t = "arpSteps pf k s"
  have "arpStepFrequency ?t \<noteq> None"
    using arpStepFrequency_valid[of ?t n f] assms Suc by simp
  then obtain x where "arpStepFrequency ?t = Some x" by blast
  from arpStep_valid[OF this, of pf] Suc show ?case by simp
qed

lemma arpSteps_numeral:
  "arpSteps pf (numeral m) s = arpStep pf (arpSteps pf (pred_numeral m) s)"
  by (simp add: numeral_eq_Suc)

text \<open>
  Claim C2. In a sequencer that is on, has a non-empty pattern and a valid base note and
  starts at step 0, the step with index \<open>k\<close> (the \<open>k+1\<close>-th call of \<open>_arpStep\<close>) plays
  \<open>baseFrequency * semitoneRatio ^ pattern[k mod patternLength]\<close>, where \<open>semitoneRatio\<close> is
  the twelfth root of 2: that frequency is given to the new voice and recorded as the last
  played frequency.
\<close>

theorem arp_step_frequency:
  assumes "arp_active (arp s)" and "arp_pattern (arp s) \<noteq> []"
    and "arp_baseNote (arp s) = Some n" and "noteFrequencies n = Some baseFrequency"
    and "arp_currentStep (arp s) = 0" and "nodes_ok pf"
  shows "as_currentNoteFrequency (arpSteps pf (Suc k) s) =
           Some (baseFrequency * semitoneRatio powr
                   real_of_int (arp_pattern (arp s) ! (k mod length (arp_pattern (arp s)))))
         \<and> map_option v_frequency (currentVoice (arpSteps pf (Suc k) s)) =
           Some (baseFrequency * semitoneRatio powr
                   real_of_int (arp_pattern (arp s) ! (k mod length (arp_pattern (arp s)))))
         \<and> semitoneRatio ^ 12 = 2"
proof -
  let ?t = "arpSteps pf k s"
  have a: "arp ?t = (arp s)\<lparr>arp_currentStep := k\<rparr>"
    using arpSteps_arp[OF assms(1-4), of pf k] assms(5) by simp
  have "arpStepFrequency ?t =
    Some (baseFrequency * semitoneRatio powr real_of_int
      (arp_pattern (arp ?t) ! (arp_currentStep (arp ?t) mod length (arp_pattern (arp ?t)))))"
    by (rule arpStepFrequency_valid[of ?t n]) (simp_all add: a assms)
  hence fr: "arpStepFrequency ?t = Some (baseFrequency * semitoneRatio powr
                   real_of_int (arp_pattern (arp s) ! (k mod length (arp_pattern (arp s)))))"
    by (simp add: a)
  have "semitoneRatio ^ 12 = semitoneRatio powr (real_of_int 12)"
    by (simp add: semitoneRatio_def powr_powr flip: powr_realpow)
  also have "\<dots> = 2" unfolding semitone_pow by simp
  finally have r: "semitoneRatio ^ 12 = 2" .
  show ?thesis using arpStep_plays[OF fr assms(6)] r by simp
qed

lemma major_third_bounds:
  "554.36 < 440 * (2::real) powr (1 / 3)" "440 * (2::real) powr (1 / 3) < 554.37"
proof -
  define x where "x = (2::real) powr (1 / 3)"
  have x0: "0 < x" by (simp add: x_def)
  have "x ^ 3 = 2 powr (1 / 3 * 3)"
    unfolding x_def by (simp add: powr_powr flip: powr_realpow)
  hence x3: "x ^ 3 = 2" by simp
  have "(554.36 / 440) ^ 3 < x ^ 3" unfolding x3 by (simp add: power3_eq_cube)
  hence "554.36 / 440 < x" using x0 by (meson less_eq_real_def power_less_imp_less_base)
  thus "554.36 < 440 * (2::real) powr (1 / 3)" unfolding x_def by simp
  have "x ^ 3 < (554.37 / 440) ^ 3" unfolding x3 by (simp add: power3_eq_cube)
  hence "x < 554.37 / 440" by (rule power_less_imp_less_base) simp
  thus "440 * (2::real) powr (1 / 3) < 554.37" unfolding x_def by simp
qed

lemma fifth_bounds:
  "659.25 < 440 * (2::real) powr (7 / 12)" "440 * (2::real) powr (7 / 12) < 659.26"
proof -
  define x where "x = (2::real) powr (7 / 12)"
  have x0: "0 < x" by (simp add: x_def)
  have "x ^ 12 = 2 powr (7 / 12 * 12)"
    unfolding x_def by (simp add: powr_powr flip: powr_realpow)
  hence x12: "x ^ 12 = 128" by simp
  have "(659.25 / 440) ^ 12 < x ^ 12" unfolding x12 by (simp add: power_divide)
  hence "659.25 / 440 < x" using x0 by (meson less_eq_real_def power_less_imp_less_base)
  thus "659.25 < 440 * (2::real) powr (7 / 12)" unfolding x_def by simp
  have "x ^ 12 < (659.26 / 440) ^ 12" unfolding x12 by (simp add: power_divide)
  hence "x < 659.26 / 440" by (rule power_less_imp_less_base) simp
  thus "440 * (2::real) powr (7 / 12) < 659.26" unfolding x_def by simp
qed

lemma arp_scenario_arp:
  "arp arp_scenario =
     \<lparr>arp_active = True, arp_intervalId = None, arp_rate = 8, arp_pattern = [0, 4, 7],
      arp_currentStep = 0, arp_baseNote = Some ''A4''\<rparr>"
  by (simp add: arp_scenario_def)

lemma noteFrequencies_A4: "noteFrequencies ''A4'' = Some 440"
  by (simp add: noteFrequencies_def)

text \<open>
  The scenario of the specification: pattern \<open>[0, 4, 7]\<close>, base note A4. Steps 0 to 3 play
  440 Hz, \<open>440 * 2^(4/12)\<close> (between 554.36 and 554.37), \<open>440 * 2^(7/12)\<close> (between 659.25
  and 659.26) and 440 Hz again.
\<close>

theorem arp_step_frequency_witness:
  "as_currentNoteFrequency (arpSteps browser 1 arp_scenario) = Some 440
   \<and> as_currentNoteFrequency (arpSteps browser 2 arp_scenario) = Some (440 * 2 powr (4 / 12))
   \<and> as_currentNoteFrequency (arpSteps browser 3 arp_scenario) = Some (440 * 2 powr (7 / 12))
   \<and> as_currentNoteFrequency (arpSteps browser 4 arp_scenario) = Some 440
   \<and> 554.36 < 440 * (2::real) powr (4 / 12) \<and> 440 * (2::real) powr (4 / 12) < 554.37
   \<and> 659.25 < 440 * (2::real) powr (7 / 12) \<and> 440 * (2::real) powr (7 / 12) < 659.26"
proof -
  have h: "arp_active (arp arp_scenario)" "arp_pattern (arp arp_scenario) \<noteq> []"
    "arp_baseNote (arp arp_scenario) = Some ''A4''" "arp_currentStep (arp arp_scenario) = 0"
    "nodes_ok browser"
    by (simp_all add: arp_scenario_arp browser_def)
  note t = arp_step_frequency[OF h(1) h(2) h(3) noteFrequencies_A4 h(4) h(5)]
  have e0: "semitoneRatio powr real_of_int 0 = 1" unfolding semitone_pow by simp
  have e4: "semitoneRatio powr real_of_int 4 = 2 powr (4 / 12)" unfolding semitone_pow by simp
  have e7: "semitoneRatio powr real_of_int 7 = 2 powr (7 / 12)" unfolding semitone_pow by simp
  have s0: "as_currentNoteFrequency (arpSteps browser 1 arp_scenario) = Some 440"
    using t[of 0] e0 by (simp add: arp_scenario_arp)
  have s1: "as_currentNoteFrequency (arpSteps browser 2 arp_scenario)
              = Some (440 * 2 powr (4 / 12))"
    using t[of 1] e4 by (simp add: arp_scenario_arp arpSteps_numeral)
  have s2: "as_currentNoteFrequency (arpSteps browser 3 arp_scenario)
              = Some (440 * 2 powr (7 / 12))"
    using t[of 2] e7 by (simp add: arp_scenario_arp arpSteps_numeral)
  have s3: "as_currentNoteFrequency (arpSteps browser 4 arp_scenario) = Some 440"
    using t[of 3] e0 by (simp add: arp_scenario_arp arpSteps_numeral)
  show ?thesis using s0 s1 s2 s3 major_third_bounds fifth_bounds by simp
qed

section \<open>Properties of the step timer\<close>

lemma frame_playArpNote [simp]:
  "timers (playArpNote pf x s) = timers s"
  by (simp add: playArpNote_def Let_def cleanupCurrentNoteNodes_def)

lemma frame_playSustainedNote [simp]:
  "timers (playSustainedNote pf n s) = timers s" "arp (playSustainedNote pf n s) = arp s"
  by (simp_all add: playSustainedNote_def cleanupCurrentNoteNodes_def split: lookup.splits)

lemma timer_inv_stopArpeggiator: "timer_inv s \<Longrightarrow> timer_inv (stopArpeggiator s)"
  by (auto simp: timer_inv_def stopArpeggiator_def clearInterval_def split: option.splits)

lemma stopArpeggiator_handle [simp]: "arp_intervalId (arp (stopArpeggiator s)) = None"
  by (simp add: stopArpeggiator_def split: option.splits)

lemma timer_inv_arpStep: "timer_inv s \<Longrightarrow> timer_inv (arpStep pf s)"
  by (auto simp: arpStep_def Let_def timer_inv_stopArpeggiator split: option.splits)
     (simp_all add: timer_inv_def)

lemma arpStep_handle_None:
  "arp_intervalId (arp s) = None \<Longrightarrow> arp_intervalId (arp (arpStep pf s)) = None"
  by (simp add: arpStep_def Let_def split: option.splits)

lemma timer_inv_startArpeggiator: "timer_inv s \<Longrightarrow> timer_inv (startArpeggiator pf s)"
proof -
  assume inv: "timer_inv s"
  show ?thesis
  proof (cases "\<not> isInitialized s \<or> arp_intervalId (arp s) \<noteq> None \<or> \<not> arp_active (arp s)")
    case True
    then show ?thesis using inv by (auto simp: startArpeggiator_def)
  next
    case False
    hence n: "arp_intervalId (arp s) = None" by simp
    have "timer_inv (arpStep pf s)" by (rule timer_inv_arpStep[OF inv])
    moreover have "arp_intervalId (arp (arpStep pf s)) = None" by (rule arpStep_handle_None[OF n])
    ultimately have "timers (arpStep pf s) = []" by (simp add: timer_inv_def)
    then show ?thesis using False
      by (simp add: startArpeggiator_def Let_def setInterval_def timer_inv_def)
  qed
qed

lemma startArpeggiator_refuses:
  "arp_intervalId (arp s) \<noteq> None \<Longrightarrow> startArpeggiator pf s = s"
  by (simp add: startArpeggiator_def)

lemma timer_inv_upd [simp]:
  "timer_inv (isPlaying_update fb s) = timer_inv s"
  "timer_inv (activeNote_update fa s) = timer_inv s"
  "timer_inv (parameters_update fp s) = timer_inv s"
  "timer_inv (currentVoice_update fv s) = timer_inv s"
  "timer_inv (ctx_running_update fb s) = timer_inv s"
  "timer_inv (disposed_update fb s) = timer_inv s"
  "timer_inv (isInitialized_update fb s) = timer_inv s"
  "timer_inv (delayNode_update fb s) = timer_inv s"
  "timer_inv (reverbNode_update fb s) = timer_inv s"
  "timer_inv (activePresetName_update fn s) = timer_inv s"
  "timer_inv (as_currentNoteFrequency_update ff s) = timer_inv s"
  "timer_inv (next_voice_update fk s) = timer_inv s"
  by (simp_all add: timer_inv_def)

lemma timer_inv_arp_update [simp]:
  "arp_intervalId (f (arp s)) = arp_intervalId (arp s) \<Longrightarrow> timer_inv (arp_update f s) = timer_inv s"
  by (simp add: timer_inv_def)

lemma timer_inv_playSustainedNote [simp]:
  "timer_inv (playSustainedNote pf n s) = timer_inv s"
  by (simp add: timer_inv_def)

lemma timer_inv_startNote: "timer_inv s \<Longrightarrow> timer_inv (startNote pf n s)"
  by (auto simp: startNote_def Let_def stopSustainedNote_def intro!: timer_inv_startArpeggiator)

lemma timer_inv_stopNote: "timer_inv s \<Longrightarrow> timer_inv (stopNote r s)"
  by (auto simp: stopNote_def stopSustainedNote_def intro!: timer_inv_stopArpeggiator)

lemma timer_inv_set_effects [simp]: "timer_inv (set_effects fx s) = timer_inv s"
  by (simp add: set_effects_def)

lemma arp_set_effects [simp]: "arp (set_effects fx s) = arp s"
  by (simp add: set_effects_def)


lemma timer_inv_toggleEffect: "timer_inv s \<Longrightarrow> timer_inv (toggleEffect pf n b s)"
  by (simp add: toggleEffect_def Let_def stopSustainedNote_def timer_inv_startArpeggiator
      timer_inv_stopArpeggiator split: option.split)

lemma timer_inv_applyCurrentToggleStates:
  "timer_inv s \<Longrightarrow> timer_inv (applyCurrentToggleStates pf s)"
  by (simp add: applyCurrentToggleStates_def timer_inv_toggleEffect split: option.split)

lemma timer_inv_setParameter: "timer_inv s \<Longrightarrow> timer_inv (setParameter pf t n v s)"
  by (simp add: setParameter_def Let_def timer_inv_startArpeggiator
      timer_inv_stopArpeggiator split: option.split pvalue.split)

lemma timer_inv_setOscillatorType [simp]: "timer_inv (setOscillatorType t s) = timer_inv s"
  by (simp add: setOscillatorType_def)

lemma timer_inv_setFilterType [simp]: "timer_inv (setFilterType t s) = timer_inv s"
  by (simp add: setFilterType_def)

lemma timer_inv_applyPresetAudio: "timer_inv s \<Longrightarrow> timer_inv (applyPresetAudio pf n s)"
  by (simp add: applyPresetAudio_def Let_def timer_inv_setParameter
      timer_inv_applyCurrentToggleStates split: option.split)

lemma timer_inv_initializeAudio: "timer_inv s \<Longrightarrow> timer_inv (initializeAudio pf c d r s)"
  by (simp add: initializeAudio_def timer_inv_applyCurrentToggleStates)

lemma timer_inv_dispose: "timer_inv s \<Longrightarrow> timer_inv (dispose s)"
  by (simp add: dispose_def Let_def cleanupCurrentNoteNodes_def timer_inv_stopNote timer_inv_stopArpeggiator)

lemma timer_inv_timeouts [simp]:
  "timer_inv (sustainedCleanupTimeout v s) = timer_inv s"
  "timer_inv (arpCleanupTimeout v s) = timer_inv s"
  by (simp_all add: sustainedCleanupTimeout_def arpCleanupTimeout_def cleanupCurrentNoteNodes_def
      split: option.split)

lemma timer_inv_step: "timer_inv s \<Longrightarrow> timer_inv (step pf ev s)"
  by (cases ev)
     (simp_all add: timer_inv_initializeAudio timer_inv_startNote timer_inv_stopNote
        timer_inv_toggleEffect timer_inv_setParameter timer_inv_applyPresetAudio
        timer_inv_arpStep timer_inv_dispose)

lemma timer_inv_new: "timer_inv (new_SoundModule n)"
  unfolding new_SoundModule_def
  by (rule timer_inv_applyPresetAudio) (simp add: timer_inv_def)

lemma reachable_timer_inv: "reachable s \<Longrightarrow> timer_inv s"
  by (induction rule: reachable.induct) (simp_all add: timer_inv_new timer_inv_step)


lemma running_arp_timer:
  "arp_intervalId (arp running_arp) = Some 1 \<and> timers running_arp = [(1, 250)]"
  by (simp add: running_arp_def browser_def new_SoundModule_def applyPresetAudio_def
   getPresetsDefinition_def merge_preset_def defaultStructure_def merge_oscillator_def
   merge_filter_def merge_envelope_def merge_effects_def merge_group_def merge_delay_def
   merge_reverb_def merge_glitch_def merge_arpeggiator_def assign_def Let_def
   initializeAudio_def applyCurrentToggleStates_def toggleEffect_def effect_active_def
   set_effect_active_def set_effects_def stopSustainedNote_def startArpeggiator_def
   arpStep_def arpStepFrequency_def noteFrequencies_def playArpNote_def setInterval_def
   arpStateValid_def note_truthy_def get_property_def find_preset_def
   connectEffectsToNode_def route_bus_def node_disconnect_def node_connect_def
   delayActive_def reverbActive_def startNote_def semitoneRatio_def cleanupCurrentNoteNodes_def)

text \<open>
  Claim C9. In every state the sound module can reach, the interval handle of the
  arpeggiator is non-null exactly when a step timer is armed, the armed timer is the one
  the handle names, at most one timer exists, and \<open>_startArpeggiator\<close> changes nothing
  while the handle is non-null. Since every operation leads to a reachable state again, no
  operation ever leaves a second timer armed.
\<close>

theorem arp_timer_invariant:
  assumes "reachable s"
  shows "(arp_intervalId (arp s) \<noteq> None \<longleftrightarrow> timers s \<noteq> [])
         \<and> length (timers s) \<le> 1
         \<and> map fst (timers s) = (case arp_intervalId (arp s) of None \<Rightarrow> [] | Some h \<Rightarrow> [h])
         \<and> (arp_intervalId (arp s) \<noteq> None \<longrightarrow> startArpeggiator pf s = s)
         \<and> length (timers (step pf ev s)) \<le> 1"
proof -
  have i: "timer_inv s" by (rule reachable_timer_inv[OF assms])
  have j: "timer_inv (step pf ev s)" by (rule timer_inv_step[OF i])
  have a: "map fst (timers s) = (case arp_intervalId (arp s) of None \<Rightarrow> [] | Some h \<Rightarrow> [h])"
    using i by (simp add: timer_inv_def)
  have "length (map fst (timers s)) \<le> 1"
    unfolding a by (simp split: option.split)
  hence b: "length (timers s) \<le> 1" by simp
  have "length (map fst (timers (step pf ev s))) \<le> 1"
    using j unfolding timer_inv_def by (simp split: option.split)
  hence c: "length (timers (step pf ev s)) \<le> 1" by simp
  have d: "arp_intervalId (arp s) \<noteq> None \<longleftrightarrow> timers s \<noteq> []"
    using a by (cases "arp_intervalId (arp s)") auto
  show ?thesis using a b c d startArpeggiator_refuses[of s pf] by simp
qed

theorem arp_timer_invariant_witness:
  "reachable running_arp
   \<and> arp_intervalId (arp running_arp) = Some 1
   \<and> map fst (timers running_arp) = [1]
   \<and> length (timers running_arp) \<le> 1
   \<and> startArpeggiator browser running_arp = running_arp
   \<and> length (timers (step browser (StartNote ''C4'') running_arp)) \<le> 1"
proof -
  have r: "reachable running_arp"
    unfolding running_arp_def by (intro reachable.intros)
  have e: "arp_intervalId (arp running_arp) = Some 1"
    using running_arp_timer by simp
  from arp_timer_invariant[OF r, of browser "StartNote ''C4''"] e r
  show ?thesis by simp
qed

section \<open>Properties of the effect routing\<close>

lemmas eval_defs = browser_def new_SoundModule_def applyPresetAudio_def
   getPresetsDefinition_def merge_preset_def defaultStructure_def merge_oscillator_def
   merge_filter_def merge_envelope_def merge_effects_def merge_group_def merge_delay_def
   merge_reverb_def merge_glitch_def merge_arpeggiator_def assign_def Let_def
   initializeAudio_def applyCurrentToggleStates_def toggleEffect_def effect_active_def
   set_effect_active_def set_effects_def stopSustainedNote_def startArpeggiator_def
   arpStep_def arpStepFrequency_def noteFrequencies_def playArpNote_def setInterval_def
   arpStateValid_def note_truthy_def get_property_def find_preset_def
   connectEffectsToNode_def route_bus_def node_disconnect_def node_connect_def
   delayActive_def reverbActive_def startNote_def semitoneRatio_def cleanupCurrentNoteNodes_def
   playSustainedNote_def

lemma bus_other: "(x \<noteq> DelayBus) = (x = ReverbBus)"
  by (cases x) auto

lemma node_disconnect_lenient:
  "\<not> strict_disconnect pf \<Longrightarrow> node_disconnect pf b out = Inr (removeAll b out)"
  by (simp add: node_disconnect_def)

lemma removeAll_both [simp]: "removeAll ReverbBus (removeAll DelayBus out) = []"
proof (induction out)
  case Nil
  show ?case by simp
next
  case (Cons a out)
  then show ?case by (cases a) auto
qed

lemma removeAll_only:
  "ReverbBus \<notin> set out \<Longrightarrow> removeAll DelayBus out = []"
  "DelayBus \<notin> set out \<Longrightarrow> removeAll ReverbBus out = []"
  by (induction out) (auto, (metis bus.exhaust)+)


text \<open>
  On a platform whose \<open>disconnect\<close> ignores a missing connection the routing does what its
  comments say: afterwards the node is connected to a bus exactly when the effect is on.
\<close>

lemma connectEffectsToNode_lenient:
  assumes "\<not> strict_disconnect pf" "isInitialized s" "delayNode s" "reverbNode s"
  shows "connectEffectsToNode pf s out =
           (if delayActive (sp_effects (parameters s)) then [DelayBus] else [])
           @ (if reverbActive (sp_effects (parameters s)) then [ReverbBus] else [])"
  using assms
  by (simp add: connectEffectsToNode_def Let_def route_bus_def node_disconnect_lenient
      node_connect_def)

text \<open>The routing never duplicates an edge, and applying it twice is applying it once.\<close>

lemma connectEffectsToNode_distinct: "distinct out \<Longrightarrow> distinct (connectEffectsToNode pf s out)"
  by (auto simp: connectEffectsToNode_def Let_def route_bus_def node_disconnect_def node_connect_def
      distinct_removeAll split: sum.splits if_splits)

text \<open>
  Where \<open>disconnect\<close> raises for a missing connection, the first \<open>disconnect\<close> on a new
  gain node leaves the try block: nothing is connected.
\<close>

lemma connectEffectsToNode_strict_fresh:
  "strict_disconnect pf \<Longrightarrow> connectEffectsToNode pf s [] = []"
  by (auto simp: connectEffectsToNode_def Let_def route_bus_def node_disconnect_def node_connect_def
      split: sum.splits if_splits)

lemma connectEffectsToNode_idem:
  "connectEffectsToNode pf s (connectEffectsToNode pf s out) = connectEffectsToNode pf s out"
  by (auto simp: connectEffectsToNode_def Let_def route_bus_def node_disconnect_def node_connect_def
      removeAll_only split: sum.splits if_splits) 


text \<open>
  Claim C4 says that \<open>_connectEffectsToNode\<close> always disconnects the source from each effect
  bus and then reconnects it exactly when the effect's flag is set, so that toggling an
  effect keeps the voice's bus connections in step with the flags. In a browser that
  follows the Web Audio API this fails: with delay and reverb both on, the sustained voice
  of a pressed key is connected to neither bus, and toggling the delay off and on again
  leaves it so.
\<close>

theorem effects_not_connected:
  "isInitialized vaporwave_voice \<and> delayNode vaporwave_voice \<and> reverbNode vaporwave_voice
   \<and> delayActive (sp_effects (parameters vaporwave_voice))
   \<and> reverbActive (sp_effects (parameters vaporwave_voice))
   \<and> map_option v_out (currentVoice vaporwave_voice) = Some []
   \<and> map_option v_out (currentVoice (toggleEffect browser ''delay'' True
         (toggleEffect browser ''delay'' False vaporwave_voice))) = Some []"
  by (simp add: vaporwave_voice_def eval_defs)

section \<open>Properties of the preset store\<close>

lemma apn_frames [simp]:
  "activePresetName (playArpNote pf x s) = activePresetName s"
  "activePresetName (playSustainedNote pf n s) = activePresetName s"
  "activePresetName (stopArpeggiator s) = activePresetName s"
  "activePresetName (set_effects fx s) = activePresetName s"
  "activePresetName (setOscillatorType t s) = activePresetName s"
  "activePresetName (setFilterType t s) = activePresetName s"
  by (simp_all add: playArpNote_def playSustainedNote_def stopArpeggiator_def set_effects_def
      setOscillatorType_def setFilterType_def cleanupCurrentNoteNodes_def Let_def
      split: option.split lookup.split)

lemma apn_arpStep [simp]: "activePresetName (arpStep pf s) = activePresetName s"
  by (simp add: arpStep_def Let_def split: option.split)

lemma apn_startArpeggiator [simp]: "activePresetName (startArpeggiator pf s) = activePresetName s"
  by (simp add: startArpeggiator_def Let_def setInterval_def)

lemma apn_toggleEffect [simp]: "activePresetName (toggleEffect pf n b s) = activePresetName s"
  by (simp add: toggleEffect_def Let_def stopSustainedNote_def split: option.split)

lemma apn_applyCurrentToggleStates [simp]:
  "activePresetName (applyCurrentToggleStates pf s) = activePresetName s"
  by (simp add: applyCurrentToggleStates_def split: option.split)

lemma apn_setParameter [simp]: "activePresetName (setParameter pf t n v s) = activePresetName s"
  by (simp add: setParameter_def Let_def split: option.split pvalue.split)

lemma default_stored: "map_of getPresetsDefinition ''default'' = Some (full_preset defaultStructure)"
  by (simp add: getPresetsDefinition_def)

lemma default_found: "find_preset ''default'' = Some (full_preset defaultStructure)"
  by (simp add: find_preset_def get_property_def default_stored)

text \<open>
  A name that the store does not have is refused, except the name of a member of
  \<open>Object.prototype\<close>, which is applied as a preset that overrides nothing.
\<close>

lemma find_preset_examples:
  "find_preset ''no_such_preset'' = None"
  "find_preset ''constructor''
     = Some \<lparr> p_oscillator = None, p_filter = None, p_envelope = None, p_effects = None \<rparr>"
  by (simp_all add: find_preset_def get_property_def getPresetsDefinition_def
      object_prototype_members_def)

lemma merge_default: "merge_preset defaultStructure (full_preset defaultStructure) = defaultStructure"
  by (simp add: merge_preset_def full_preset_def defaultStructure_def merge_oscillator_def
      merge_filter_def merge_envelope_def merge_effects_def merge_group_def merge_delay_def
      merge_reverb_def merge_glitch_def merge_arpeggiator_def assign_def)

text \<open>
  Claim C10. \<open>getPresetNames()\<close> returns the names of the preset store without
  \<open>'default'\<close>, in the order of the store: for the shipped presets \<open>vaporwave\<close>,
  \<open>ambient_drone\<close>, \<open>synthwave_lead\<close>, \<open>grimoire_pulse\<close>. The name \<open>'default'\<close> is in the
  store all the same, and \<open>applyPresetAudio('default')\<close> is accepted: it becomes the active
  preset and the parameters become the default structure.
\<close>

theorem getPresetNames_shipped:
  assumes "\<not> disposed s"
  shows "getPresetNames s = filter (\<lambda>name. name \<noteq> ''default'') (map fst getPresetsDefinition)
    \<and> getPresetNames s = [''vaporwave'', ''ambient_drone'', ''synthwave_lead'', ''grimoire_pulse'']
    \<and> ''default'' \<in> set (map fst getPresetsDefinition)
    \<and> map_of getPresetsDefinition ''default'' = Some (full_preset defaultStructure)
    \<and> activePresetName (applyPresetAudio pf ''default'' s) = ''default''
    \<and> (\<not> isInitialized s \<longrightarrow> parameters (applyPresetAudio pf ''default'' s) = defaultStructure)"
proof -
  have n: "map fst getPresetsDefinition =
      [''default'', ''vaporwave'', ''ambient_drone'', ''synthwave_lead'', ''grimoire_pulse'']"
    by (simp add: getPresetsDefinition_def)
  have a: "activePresetName (applyPresetAudio pf ''default'' s) = ''default''"
    using assms by (simp add: applyPresetAudio_def default_found merge_default Let_def split: option.split)
  have b: "\<not> isInitialized s \<Longrightarrow> parameters (applyPresetAudio pf ''default'' s) = defaultStructure"
    using assms by (simp add: applyPresetAudio_def default_found merge_default Let_def split: option.split)
  show ?thesis using assms a b default_stored by (simp add: getPresetNames_def n)
qed


theorem getPresetNames_shipped_witness:
  "\<not> disposed (new_SoundModule ''vaporwave'')
   \<and> getPresetNames (new_SoundModule ''vaporwave'')
       = [''vaporwave'', ''ambient_drone'', ''synthwave_lead'', ''grimoire_pulse'']
   \<and> activePresetName (applyPresetAudio browser ''default'' (new_SoundModule ''vaporwave''))
       = ''default''
   \<and> parameters (applyPresetAudio browser ''default'' (new_SoundModule ''vaporwave''))
       = defaultStructure"
proof -
  have d: "\<not> disposed (new_SoundModule ''vaporwave'')"
    and i: "\<not> isInitialized (new_SoundModule ''vaporwave'')"
    by (simp_all add: eval_defs)
  from getPresetNames_shipped[OF d, of browser] d i show ?thesis by blast
qed

section \<open>Properties of the spectral analysis\<close>

lemma bandStep_counts_mono:
  "bassCount acc \<le> bassCount (bandStep be me he i v acc)"
  "midCount acc \<le> midCount (bandStep be me he i v acc)"
  "highCount acc \<le> highCount (bandStep be me he i v acc)"
  by (simp_all add: bandStep_def)

lemma sumBands_counts_mono:
  "bassCount acc \<le> bassCount (sumBands be me he i xs acc)
   \<and> midCount acc \<le> midCount (sumBands be me he i xs acc)
   \<and> highCount acc \<le> highCount (sumBands be me he i xs acc)"
proof (induction xs arbitrary: i acc)
  case Nil
  show ?case by simp
next
  case (Cons v xs)
  let ?a = "bandStep be me he i v acc"
  from Cons[where i = "i + 1" and acc = ?a] bandStep_counts_mono[of acc be me he i v]
  show ?case by simp
qed

lemma bassCount_pos:
  "i \<le> j \<Longrightarrow> j < i + int (length xs) \<Longrightarrow> j \<le> be
   \<Longrightarrow> bassCount acc < bassCount (sumBands be me he i xs acc)"
proof (induction xs arbitrary: i acc)
  case Nil
  then show ?case by simp
next
  case (Cons v xs)
  let ?a = "bandStep be me he i v acc"
  show ?case
  proof (cases "i = j")
    case True
    hence "bassCount acc < bassCount ?a" using Cons.prems by (simp add: bandStep_def)
    moreover have "bassCount ?a \<le> bassCount (sumBands be me he (i + 1) xs ?a)"
      using sumBands_counts_mono by blast
    ultimately show ?thesis by simp
  next
    case False
    with Cons.prems have p: "i + 1 \<le> j" "j < (i + 1) + int (length xs)" by auto
    have "bassCount acc \<le> bassCount ?a" by (rule bandStep_counts_mono)
    moreover have "bassCount ?a < bassCount (sumBands be me he (i + 1) xs ?a)"
      by (rule Cons.IH[OF p Cons.prems(3)])
    ultimately show ?thesis by simp
  qed
qed

lemma midCount_pos:
  "i \<le> j \<Longrightarrow> j < i + int (length xs) \<Longrightarrow> be < j \<Longrightarrow> j \<le> me
   \<Longrightarrow> midCount acc < midCount (sumBands be me he i xs acc)"
proof (induction xs arbitrary: i acc)
  case Nil
  then show ?case by simp
next
  case (Cons v xs)
  let ?a = "bandStep be me he i v acc"
  show ?case
  proof (cases "i = j")
    case True
    hence "midCount acc < midCount ?a" using Cons.prems by (simp add: bandStep_def)
    moreover have "midCount ?a \<le> midCount (sumBands be me he (i + 1) xs ?a)"
      using sumBands_counts_mono by blast
    ultimately show ?thesis by simp
  next
    case False
    with Cons.prems have p: "i + 1 \<le> j" "j < (i + 1) + int (length xs)" by auto
    have "midCount acc \<le> midCount ?a" by (rule bandStep_counts_mono)
    moreover have "midCount ?a < midCount (sumBands be me he (i + 1) xs ?a)"
      by (rule Cons.IH[OF p Cons.prems(3,4)])
    ultimately show ?thesis by simp
  qed
qed

lemma highCount_pos:
  "i \<le> j \<Longrightarrow> j < i + int (length xs) \<Longrightarrow> be < j \<Longrightarrow> me < j \<Longrightarrow> j \<le> he
   \<Longrightarrow> highCount acc < highCount (sumBands be me he i xs acc)"
proof (induction xs arbitrary: i acc)
  case Nil
  then show ?case by simp
next
  case (Cons v xs)
  let ?a = "bandStep be me he i v acc"
  show ?case
  proof (cases "i = j")
    case True
    hence "highCount acc < highCount ?a" using Cons.prems by (simp add: bandStep_def)
    moreover have "highCount ?a \<le> highCount (sumBands be me he (i + 1) xs ?a)"
      using sumBands_counts_mono by blast
    ultimately show ?thesis by simp
  next
    case False
    with Cons.prems have p: "i + 1 \<le> j" "j < (i + 1) + int (length xs)" by auto
    have "highCount acc \<le> highCount ?a" by (rule bandStep_counts_mono)
    moreover have "highCount ?a < highCount (sumBands be me he (i + 1) xs ?a)"
      by (rule Cons.IH[OF p Cons.prems(3,4,5)])
    ultimately show ?thesis by simp
  qed
qed

lemma sums_match_bandStep: "sums_match v acc \<Longrightarrow> sums_match v (bandStep be me he i v acc)"
  by (simp add: sums_match_def bandStep_def)

lemma sums_match_sumBands:
  "sums_match v acc \<Longrightarrow> sums_match v (sumBands be me he i (replicate n v) acc)"
  by (induction n arbitrary: i acc) (simp_all add: sums_match_bandStep)

lemma bandLevel_full:
  assumes "1 \<le> c" "0 < e" "e \<le> 1" "1.2 \<le> g"
  shows "bandLevel (255 * c) c e g = 1"
proof -
  define d where "d = real c + 1 / 10 ^ 6"
  define a where "a = (real (255 * c) / d) / 255"
  have c1: "1 \<le> real c" using assms(1) by simp
  have d0: "0 < d" unfolding d_def using c1 by simp
  have a_eq: "a = real c / d" by (simp add: a_def)
  have a1: "a \<le> 1" unfolding a_eq using d0 by (simp add: d_def)
  have "0.9 * d \<le> real c" unfolding d_def using c1 by simp
  hence a9: "0.9 \<le> a" unfolding a_eq using d0 by (simp add: pos_le_divide_eq)
  have "a powr 1 \<le> a powr e" by (rule powr_mono') (use assms a1 a9 in auto)
  hence "0.9 \<le> a powr e" using a9 by simp
  hence "0.9 * 1.2 \<le> a powr e * g" using assms(4) by (intro mult_mono) auto
  hence "1 \<le> a powr e * g" by simp
  thus ?thesis unfolding bandLevel_def Let_def d_def[symmetric] by (simp add: a_eq)
qed

lemma bandLevel_zero: "bandLevel 0 c e g = 0"
  by (simp add: bandLevel_def Let_def)


lemma floor_gap: "a + 1 \<le> b \<Longrightarrow> \<lfloor>a::real\<rfloor> < \<lfloor>b\<rfloor>"
  by linarith

lemma band_indices:
  assumes "4016 \<le> sr" "sr \<le> 896000"
  shows "0 \<le> bandEndIndex 250 (sr / 2) 256"
    and "bandEndIndex 250 (sr / 2) 256 < bandEndIndex 2000 (sr / 2) 256"
    and "bandEndIndex 2000 (sr / 2) 256 < bandEndIndex 6000 (sr / 2) 256"
    and "bandEndIndex 6000 (sr / 2) 256 \<le> 255"
proof -
  have sr0: "0 < sr" using assms by simp
  define k where "k = 512 / sr"
  have k0: "0 < k" using sr0 by (simp add: k_def)
  have kl: "k \<le> 512 / 4016" unfolding k_def using assms sr0 by (simp add: field_simps)
  have ku: "512 / 896000 \<le> k" unfolding k_def using assms sr0 by (simp add: field_simps)
  have b: "250 / (sr / 2) * real (256::nat) = 250 * k" by (simp add: k_def)
  have m: "2000 / (sr / 2) * real (256::nat) = 2000 * k" by (simp add: k_def)
  have h: "6000 / (sr / 2) * real (256::nat) = 6000 * k" by (simp add: k_def)
  have fb: "0 \<le> \<lfloor>250 * k\<rfloor>" "\<lfloor>250 * k\<rfloor> \<le> 31"
    using k0 kl by (simp_all add: le_floor_iff floor_le_iff)
  have fm: "\<lfloor>250 * k\<rfloor> < \<lfloor>2000 * k\<rfloor>" "\<lfloor>2000 * k\<rfloor> \<le> 254"
    using kl ku by (auto intro!: floor_gap simp: floor_le_iff)
  have fh: "\<lfloor>2000 * k\<rfloor> < \<lfloor>6000 * k\<rfloor>" using ku by (auto intro!: floor_gap)
  show "0 \<le> bandEndIndex 250 (sr / 2) 256" unfolding bandEndIndex_def b using fb by simp
  show "bandEndIndex 250 (sr / 2) 256 < bandEndIndex 2000 (sr / 2) 256"
    unfolding bandEndIndex_def b m using fb fm by simp
  show "bandEndIndex 2000 (sr / 2) 256 < bandEndIndex 6000 (sr / 2) 256"
    unfolding bandEndIndex_def m h using fm fh by simp
  show "bandEndIndex 6000 (sr / 2) 256 \<le> 255" unfolding bandEndIndex_def by simp
qed

lemma getAudioLevels_ready:
  assumes "\<not> disposed s" "isInitialized s"
  shows "getAudioLevels s (Some \<lparr>dataArray = xs, sampleRate = sr\<rparr>) =
    (let be = bandEndIndex 250 (sr / 2) (length xs);
         me = bandEndIndex 2000 (sr / 2) (length xs);
         he = bandEndIndex 6000 (sr / 2) (length xs);
         bands = sumBands be me he 0 xs no_sums
     in \<lparr> lv_bass = bandLevel (bassSum bands) (bassCount bands) 0.8 1.8,
          lv_mid = bandLevel (midSum bands) (midCount bands) 0.9 1.4,
          lv_high = bandLevel (highSum bands) (highCount bands) 0.7 2.2,
          lv_frequency = as_currentNoteFrequency s \<rparr>)"
  using assms by (simp add: getAudioLevels_def Let_def no_sums_def)

lemma sums_match_no_sums: "sums_match v no_sums"
  by (simp add: sums_match_def no_sums_def)

lemma levels_full:
  fixes s sr
  defines "lv \<equiv> getAudioLevels s (Some \<lparr>dataArray = replicate 256 255, sampleRate = sr\<rparr>)"
  assumes "\<not> disposed s" "isInitialized s" "4016 \<le> sr" "sr \<le> 896000"
  shows "lv_bass lv = 1 \<and> lv_mid lv = 1 \<and> lv_high lv = 1"
proof -
  define be where "be = bandEndIndex 250 (sr / 2) 256"
  define me where "me = bandEndIndex 2000 (sr / 2) 256"
  define he where "he = bandEndIndex 6000 (sr / 2) 256"
  define bands where "bands = sumBands be me he 0 (replicate 256 255) no_sums"
  note idx = band_indices[OF assms(4,5), folded be_def me_def he_def]
  have sm: "sums_match 255 bands"
    unfolding bands_def by (rule sums_match_sumBands[OF sums_match_no_sums])
  have cb: "bassCount no_sums < bassCount bands"
    unfolding bands_def by (rule bassCount_pos[where j = 0]) (use idx in simp_all)
  have cm: "midCount no_sums < midCount bands"
    unfolding bands_def by (rule midCount_pos[where j = me]) (use idx in simp_all)
  have ch: "highCount no_sums < highCount bands"
    unfolding bands_def by (rule highCount_pos[where j = he]) (use idx in simp_all)
  have b: "bandLevel (bassSum bands) (bassCount bands) 0.8 1.8 = 1"
    using sm cb bandLevel_full[of "bassCount bands" "0.8" "1.8"]
    by (simp add: sums_match_def no_sums_def)
  have m: "bandLevel (midSum bands) (midCount bands) 0.9 1.4 = 1"
    using sm cm bandLevel_full[of "midCount bands" "0.9" "1.4"]
    by (simp add: sums_match_def no_sums_def)
  have h: "bandLevel (highSum bands) (highCount bands) 0.7 2.2 = 1"
    using sm ch bandLevel_full[of "highCount bands" "0.7" "2.2"]
    by (simp add: sums_match_def no_sums_def)
  show ?thesis
    unfolding lv_def getAudioLevels_ready[OF assms(2,3)]
    using b m h by (simp add: Let_def be_def me_def he_def bands_def)
qed

lemma levels_zero:
  fixes s n sr
  defines "lv \<equiv> getAudioLevels s (Some \<lparr>dataArray = replicate n 0, sampleRate = sr\<rparr>)"
  shows "lv_bass lv = 0 \<and> lv_mid lv = 0 \<and> lv_high lv = 0"
proof (cases "disposed s \<or> \<not> isInitialized s")
  case True
  then show ?thesis unfolding lv_def by (auto simp: getAudioLevels_def)
next
  case False
  hence r: "\<not> disposed s" "isInitialized s" by simp_all
  have "sums_match 0 (sumBands be me he 0 (replicate n 0) no_sums)" for be me he
    by (rule sums_match_sumBands[OF sums_match_no_sums])
  hence z: "bassSum (sumBands be me he 0 (replicate n 0) no_sums) = 0"
    "midSum (sumBands be me he 0 (replicate n 0) no_sums) = 0"
    "highSum (sumBands be me he 0 (replicate n 0) no_sums) = 0" for be me he
    by (simp_all add: sums_match_def)
  show ?thesis
    unfolding lv_def getAudioLevels_ready[OF r]
    by (simp add: Let_def z bandLevel_zero)
qed


text \<open>
  Claim C8. For an analyser buffer whose 256 bins are all 255, \<open>getAudioLevels\<close> of an
  initialized module returns 1 for bass, mid and high, at every sample rate from 4016 Hz
  to 896000 Hz (where each of the three bands holds at least one bin); for a buffer whose
  bins are all 0 it returns 0 for the three bands.
\<close>

theorem getAudioLevels_extremes:
  assumes "\<not> disposed s" and "isInitialized s" and "4016 \<le> sr" and "sr \<le> 896000"
  shows "lv_bass (getAudioLevels s (Some \<lparr>dataArray = replicate 256 255, sampleRate = sr\<rparr>)) = 1
       \<and> lv_mid (getAudioLevels s (Some \<lparr>dataArray = replicate 256 255, sampleRate = sr\<rparr>)) = 1
       \<and> lv_high (getAudioLevels s (Some \<lparr>dataArray = replicate 256 255, sampleRate = sr\<rparr>)) = 1
       \<and> lv_bass (getAudioLevels s (Some \<lparr>dataArray = replicate 256 0, sampleRate = sr\<rparr>)) = 0
       \<and> lv_mid (getAudioLevels s (Some \<lparr>dataArray = replicate 256 0, sampleRate = sr\<rparr>)) = 0
       \<and> lv_high (getAudioLevels s (Some \<lparr>dataArray = replicate 256 0, sampleRate = sr\<rparr>)) = 0"
  using levels_full[OF assms] levels_zero[of s 256 sr] by simp

theorem getAudioLevels_extremes_witness:
  "\<not> disposed vaporwave_voice \<and> isInitialized vaporwave_voice
   \<and> lv_bass (getAudioLevels vaporwave_voice
        (Some \<lparr>dataArray = replicate 256 255, sampleRate = 44100\<rparr>)) = 1
   \<and> lv_mid (getAudioLevels vaporwave_voice
        (Some \<lparr>dataArray = replicate 256 255, sampleRate = 44100\<rparr>)) = 1
   \<and> lv_high (getAudioLevels vaporwave_voice
        (Some \<lparr>dataArray = replicate 256 255, sampleRate = 44100\<rparr>)) = 1
   \<and> lv_bass (getAudioLevels vaporwave_voice
        (Some \<lparr>dataArray = replicate 256 0, sampleRate = 44100\<rparr>)) = 0
   \<and> lv_mid (getAudioLevels vaporwave_voice
        (Some \<lparr>dataArray = replicate 256 0, sampleRate = 44100\<rparr>)) = 0
   \<and> lv_high (getAudioLevels vaporwave_voice
        (Some \<lparr>dataArray = replicate 256 0, sampleRate = 44100\<rparr>)) = 0"
proof -
  have d: "\<not> disposed vaporwave_voice" and i: "isInitialized vaporwave_voice"
    by (simp_all add: vaporwave_voice_def eval_defs)
  have r: "(4016::real) \<le> 44100" "(44100::real) \<le> 896000" by simp_all
  from getAudioLevels_extremes[OF d i r] d i show ?thesis by blast
qed

section \<open>Properties of the projections\<close>

lemma smoothstep_01: "smoothstep 0 1 0 = 0" "smoothstep 0 1 1 = 1"
  by (simp_all add: smoothstep_def)

lemma smoothstep_unit: "0 \<le> m \<Longrightarrow> m \<le> 1 \<Longrightarrow> smoothstep 0 1 m = m * m * (3 - 2 * m)"
  by (simp add: smoothstep_def)

lemma mix3_0: "mix3 u v 0 = u" and mix3_1: "mix3 u v 1 = v"
  by (cases u; cases v; simp add: mix3_def add3_def scale3_def)+

lemma perspective_is_formula:
  "perspective_project4Dto3D d m mid p
     = spec_perspective_formula (max 0.2 (toFixed2 d * (1 + m * 0.4 - mid * 0.3))) p"
  by (simp add: perspective_project4Dto3D_def Let_def spec_perspective_formula_def)

lemma toFixed2_default: "toFixed2 (5 / 2) = 5 / 2"
  by (simp add: toFixed2_def glsl_sign_def)

lemma smoothstep_tendsto: "((\<lambda>m. smoothstep 0 1 m) \<longlongrightarrow> 1) (at 1)"
proof -
  have "isCont (\<lambda>m::real. smoothstep 0 1 m) 1"
    unfolding smoothstep_def Let_def by (intro continuous_intros) simp_all
  thus ?thesis by (simp add: isCont_def smoothstep_01)
qed

lemma blend_tendsto:
  "((\<lambda>m. a * (1 - smoothstep 0 1 m) + b * smoothstep 0 1 m) \<longlongrightarrow> b) (at 1)"
proof -
  have "((\<lambda>m. a * (1 - smoothstep 0 1 m) + b * smoothstep 0 1 m) \<longlongrightarrow> a * (1 - 1) + b * 1) (at 1)"
    by (intro tendsto_intros smoothstep_tendsto)
  thus ?thesis by simp
qed

lemma ortho_blend:
  "orthographic_project4Dto3D m mid p =
     (case spec_perspective_formula (max 0.2 (2.5 * (1 - mid * 0.4))) p of (a, b, c) \<Rightarrow>
        (px p * (1 - smoothstep 0 1 m) + a * smoothstep 0 1 m,
         py p * (1 - smoothstep 0 1 m) + b * smoothstep 0 1 m,
         pz p * (1 - smoothstep 0 1 m) + c * smoothstep 0 1 m))"
  by (simp add: orthographic_project4Dto3D_def Let_def mix3_def add3_def scale3_def xyz_def
      spec_perspective_formula_def)

lemma ortho_limit:
  "((\<lambda>m. orthographic_project4Dto3D m mid p)
      \<longlongrightarrow> spec_perspective_formula (max 0.2 (2.5 * (1 - mid * 0.4))) p) (at 1)"
proof -
  obtain a b c where f: "spec_perspective_formula (max 0.2 (2.5 * (1 - mid * 0.4))) p = (a, b, c)"
    by (metis prod_cases3)
  show ?thesis
    unfolding ortho_blend f by (simp, intro tendsto_Pair blend_tendsto)
qed


text \<open>
  Claim C7, as stated, fails: at morph factor 1 the orthographic projection does not
  return what the perspective projection returns for the same point and uniforms. At the
  point (1, 0, 0, 1) with a silent mid band the first gives 5/7 and the second 7/9 on the
  x axis.
\<close>

theorem orthographic_is_not_perspective_at_one:
  "orthographic_project4Dto3D 1 0 example_point = (5 / 7, 0, 0)
   \<and> perspective_project4Dto3D (PerspectiveProjection 2.5) 1 0 example_point = (7 / 9, 0, 0)
   \<and> orthographic_project4Dto3D 1 0 example_point
       \<noteq> perspective_project4Dto3D (PerspectiveProjection 2.5) 1 0 example_point"
  by (simp add: orthographic_project4Dto3D_def perspective_project4Dto3D_def Let_def
      smoothstep_01 mix3_1 PerspectiveProjection_def toFixed2_default example_point_def xyz_def
      scale3_def)

text \<open>
  Claim C7, amended. For every point and mid level the orthographic projection at morph
  factor 0 returns the point's \<open>xyz\<close> unchanged; at morph factor 1 it equals, and as the
  morph factor tends to 1 it converges to, the perspective formula at the orthographic
  module's own view distance \<open>max(0.2, 2.5 * (1 - 0.4 * u_audioMid))\<close>. The perspective
  projection is the same formula at the distance
  \<open>max(0.2, viewDistance * (1 + 0.4 * u_morphFactor - 0.3 * u_audioMid))\<close>.
\<close>

theorem orthographic_blend_ends:
  "orthographic_project4Dto3D 0 mid p = xyz p
   \<and> orthographic_project4Dto3D 1 mid p
       = spec_perspective_formula (max 0.2 (2.5 * (1 - mid * 0.4))) p
   \<and> ((\<lambda>m. orthographic_project4Dto3D m mid p)
         \<longlongrightarrow> spec_perspective_formula (max 0.2 (2.5 * (1 - mid * 0.4))) p) (at 1)
   \<and> perspective_project4Dto3D d m mid p
       = spec_perspective_formula (max 0.2 (toFixed2 d * (1 + m * 0.4 - mid * 0.3))) p"
  using ortho_limit[of mid p] perspective_is_formula[of d m mid p]
  by (simp add: orthographic_project4Dto3D_def Let_def smoothstep_01 mix3_0 mix3_1
      spec_perspective_formula_def)

theorem orthographic_blend_ends_witness:
  "orthographic_project4Dto3D 0 0 example_point = (1, 0, 0)
   \<and> orthographic_project4Dto3D 1 0 example_point = (5 / 7, 0, 0)"
  using orthographic_blend_ends[of 0 example_point 1 0]
  by (simp add: spec_perspective_formula_def example_point_def xyz_def scale3_def)

lemma pole_default: "dynamicPoleW (StereographicProjection (-1.5)) 0 = -1.5"
  by (simp add: dynamicPoleW_def StereographicProjection_def toFixed2_def glsl_sign_def Let_def)

lemma length3_scale3: "length3 (scale3 v c) = \<bar>c\<bar> * length3 v"
proof (cases v)
  case (fields x y z)
  have "(x * c) * (x * c) + (y * c) * (y * c) + (z * c) * (z * c) = c\<^sup>2 * (x * x + y * y + z * z)"
    by (simp add: power2_eq_square algebra_simps)
  thus ?thesis using fields by (simp add: length3_def scale3_def real_sqrt_mult)
qed

lemma mix3_same_direction:
  "mix3 (scale3 v a) v t = scale3 v (a * (1 - t) + t)"
  by (cases v) (simp add: mix3_def add3_def scale3_def algebra_simps)

lemma smoothstep_range: "0 \<le> smoothstep 0 1 x \<and> smoothstep 0 1 x \<le> 1"
proof -
  define t where "t = min (max x 0) 1"
  have t: "0 \<le> t" "t \<le> 1" by (simp_all add: t_def)
  have lo: "0 \<le> t * t * (3 - 2 * t)" using t by simp
  have "1 - t * t * (3 - 2 * t) = (1 - t) * (1 - t) * (1 + 2 * t)" by (simp add: algebra_simps)
  moreover have "0 \<le> (1 - t) * (1 - t) * (1 + 2 * t)" using t by simp
  ultimately have hi: "t * t * (3 - 2 * t) \<le> 1" by linarith
  have "smoothstep 0 1 x = t * t * (3 - 2 * t)" by (simp add: smoothstep_def t_def Let_def)
  thus ?thesis using lo hi by simp
qed

text \<open>
  Near the pole, a point off the w axis is sent to a vector of finite length between 1000
  and the length of its \<open>xyz\<close>.
\<close>

lemma stereographic_near_pole:
  assumes "\<bar>pw p - dynamicPoleW b h\<bar> < 0.01" and "length3 (xyz p) \<noteq> 0"
  shows "\<exists>v. stereographic_project4Dto3D b m h p = Some v
           \<and> length3 v = 1000 * (1 - smoothstep 0 1 (m * 0.8))
                          + length3 (xyz p) * smoothstep 0 1 (m * 0.8)"
proof -
  define L where "L = length3 (xyz p)"
  define T where "T = smoothstep 0 1 (m * 0.8)"
  have L0: "0 < L" using assms(2) unfolding L_def length3_def by (cases "xyz p") (auto simp: less_le)
  have T01: "0 \<le> T" "T \<le> 1" using smoothstep_range[of "m * 0.8"] by (simp_all add: T_def)
  have r: "stereographic_project4Dto3D b m h p
        = Some (mix3 (scale3 (scale3 (xyz p) (1 / L)) 1000) (xyz p) T)"
    using assms by (simp add: stereographic_project4Dto3D_def Let_def normalize3_def L_def T_def)
  have "scale3 (scale3 (xyz p) (1 / L)) 1000 = scale3 (xyz p) (1000 / L)"
    by (cases "xyz p") (simp add: scale3_def)
  hence e: "mix3 (scale3 (scale3 (xyz p) (1 / L)) 1000) (xyz p) T
         = scale3 (xyz p) (1000 / L * (1 - T) + T)"
    by (simp add: mix3_same_direction)
  have nn: "0 \<le> 1000 / L * (1 - T) + T" using L0 T01 by simp
  have "length3 (scale3 (xyz p) (1000 / L * (1 - T) + T)) = (1000 / L * (1 - T) + T) * L"
    using nn by (simp add: length3_scale3 L_def)
  also have "\<dots> = 1000 * (1 - T) + L * T" using L0 by (simp add: field_simps)
  finally show ?thesis using r e by (simp add: L_def T_def)
qed

text \<open>
  Claim C6 says that every point within \<open>epsilon\<close> of the pole is projected to a finite
  vector, never NaN or Infinity. The point of the w axis at the pole itself is within
  \<open>epsilon\<close>, its \<open>xyz\<close> is the zero vector, and \<open>normalize\<close> of it divides by zero: the
  projection has no value there, for every morph factor and high level.
\<close>

theorem stereographic_undefined_at_pole:
  "\<bar>pw (origin_at_pole b h) - dynamicPoleW b h\<bar> < 0.01
   \<and> stereographic_project4Dto3D b m h (origin_at_pole b h) = None
   \<and> origin_at_pole (StereographicProjection (- 1.5)) 0 = \<lparr>px = 0, py = 0, pz = 0, pw = - 1.5\<rparr>"
  using pole_default
  by (simp add: stereographic_project4Dto3D_def Let_def origin_at_pole_def normalize3_def
      length3_def xyz_def)

section \<open>Properties of the render-state engine\<close>

lemma update_key_flag: "snd (update_key p (st, True)) = True"
  by (cases p) simp_all

lemma fold_update_key_flag: "snd (fold update_key ps (st, True)) = True"
proof (induction ps arbitrary: st)
  case Nil
  show ?case by simp
next
  case (Cons p ps)
  obtain st' where "update_key p (st, True) = (st', True)"
    using update_key_flag[of p st] by (cases "update_key p (st, True)") auto
  then show ?case using Cons by simp
qed

lemma update_key_geometry:
  "\<forall>g. p \<noteq> P_geometryType g \<Longrightarrow>
     st_geometryType (fst (update_key p (st, flag))) = st_geometryType st"
  by (cases p)
     (simp_all add: set_uniform_property_def set_sub_property_def mark_dirty_def split: option.split)

lemma update_key_projection:
  "\<forall>g. p \<noteq> P_projectionMethod g \<Longrightarrow>
     st_projectionMethod (fst (update_key p (st, flag))) = st_projectionMethod st"
  by (cases p)
     (simp_all add: set_uniform_property_def set_sub_property_def mark_dirty_def split: option.split)

lemma geometry_change_flags:
  "P_geometryType g \<in> set ps \<Longrightarrow> g \<noteq> st_geometryType st
     \<Longrightarrow> snd (fold update_key ps (st, flag)) = True"
proof (induction ps arbitrary: st flag)
  case Nil
  then show ?case by simp
next
  case (Cons p ps)
  show ?case
  proof (cases "\<exists>g'. p = P_geometryType g'")
    case True
    then obtain g' where p: "p = P_geometryType g'" by blast
    show ?thesis
    proof (cases "g' = st_geometryType st")
      case True
      with p Cons.prems have "P_geometryType g \<in> set ps" by auto
      with Cons.IH[OF this Cons.prems(2)] p True show ?thesis by simp
    next
      case False
      with p show ?thesis by (simp add: fold_update_key_flag)
    qed
  next
    case False
    hence n: "\<forall>g. p \<noteq> P_geometryType g" by blast
    with Cons.prems have i: "P_geometryType g \<in> set ps" by auto
    obtain st' flag' where u: "update_key p (st, flag) = (st', flag')"
      by (cases "update_key p (st, flag)") auto
    have "st_geometryType st' = st_geometryType st"
      using update_key_geometry[OF n, of st flag] u by simp
    with Cons.IH[OF i, of st' flag'] Cons.prems(2) u show ?thesis by simp
  qed
qed

lemma projection_change_flags:
  "P_projectionMethod g \<in> set ps \<Longrightarrow> g \<noteq> st_projectionMethod st
     \<Longrightarrow> snd (fold update_key ps (st, flag)) = True"
proof (induction ps arbitrary: st flag)
  case Nil
  then show ?case by simp
next
  case (Cons p ps)
  show ?case
  proof (cases "\<exists>g'. p = P_projectionMethod g'")
    case True
    then obtain g' where p: "p = P_projectionMethod g'" by blast
    show ?thesis
    proof (cases "g' = st_projectionMethod st")
      case True
      with p Cons.prems have "P_projectionMethod g \<in> set ps" by auto
      with Cons.IH[OF this Cons.prems(2)] p True show ?thesis by simp
    next
      case False
      with p show ?thesis by (simp add: fold_update_key_flag)
    qed
  next
    case False
    hence n: "\<forall>g. p \<noteq> P_projectionMethod g" by blast
    with Cons.prems have i: "P_projectionMethod g \<in> set ps" by auto
    obtain st' flag' where u: "update_key p (st, flag) = (st', flag')"
      by (cases "update_key p (st, flag)") auto
    have "st_projectionMethod st' = st_projectionMethod st"
      using update_key_projection[OF n, of st flag] u by simp
    with Cons.IH[OF i, of st' flag'] Cons.prems(2) u show ?thesis by simp
  qed
qed

lemma update_key_bookkeeping:
  "isRendering (fst (update_key p (st, flag))) = isRendering st
   \<and> has_onError (fst (update_key p (st, flag))) = has_onError st
   \<and> shaderProgramName (fst (update_key p (st, flag))) = shaderProgramName st"
  by (cases p)
     (simp_all add: set_uniform_property_def set_sub_property_def mark_dirty_def split: option.split)

lemma fold_update_key_bookkeeping:
  "isRendering (fst (fold update_key ps (st, flag))) = isRendering st
   \<and> has_onError (fst (fold update_key ps (st, flag))) = has_onError st
   \<and> shaderProgramName (fst (fold update_key ps (st, flag))) = shaderProgramName st"
proof (induction ps arbitrary: st flag)
  case Nil
  show ?case by simp
next
  case (Cons p ps)
  obtain st' flag' where u: "update_key p (st, flag) = (st', flag')"
    by (cases "update_key p (st, flag)") auto
  with Cons[of st' flag'] update_key_bookkeeping[of p st flag] show ?case by simp
qed

lemma updateParameters_frame:
  "isRendering (state (updateParameters ps c)) = isRendering (state c)"
  "has_onError (state (updateParameters ps c)) = has_onError (state c)"
  "shaderManager (updateParameters ps c) = shaderManager c"
  "onError_calls (updateParameters ps c) = onError_calls c"
  using fold_update_key_bookkeeping[of ps "state c" False]
  by (auto simp: updateParameters_def split: prod.split)

lemma updateParameters_flag:
  assumes "(P_geometryType g \<in> set ps \<and> g \<noteq> st_geometryType (state c))
         \<or> (P_projectionMethod g \<in> set ps \<and> g \<noteq> st_projectionMethod (state c))"
  shows "needsShaderUpdate (state (updateParameters ps c))"
proof -
  have "snd (fold update_key ps (state c, False)) = True"
    using assms geometry_change_flags projection_change_flags by blast
  thus ?thesis by (auto simp: updateParameters_def split: prod.split)
qed


lemma link_calls_useProgram [simp]: "link_calls (useProgram n sm) = link_calls sm"
  by (simp add: useProgram_def split: option.split)

lemma link_calls_compileShader [simp]: "link_calls (snd (compileShader env i sm)) = link_calls sm"
  by (simp add: compileShader_def)

lemma getProjection_registered:
  "getProjection ''perspective'' = Own Perspective"
  "getProjection ''orthographic'' = Own Orthographic"
  "getProjection ''stereographic'' = Own Stereographic"
  "getProjection ''Stereographic'' = Own Stereographic"
  "getProjection '''' = Own Perspective"
  "getProjection ''cavalier'' = Own Perspective"
  by (simp_all add: getProjection_def toLowerCase_def get_property_def projections_def
      object_prototype_members_def)

lemma getProjection_inherited:
  "getProjection ''constructor'' = Inherited"
  "getProjection ''__proto__'' = Inherited"
  "getProjection ''Constructor'' = Inherited"
  by (simp_all add: getProjection_def toLowerCase_def get_property_def projections_def
      object_prototype_members_def)

lemma getProjection_found: "getProjection name \<noteq> Undefined"
  by (simp add: getProjection_def toLowerCase_def get_property_def projections_def Let_def
      split: lookup.split option.split)

lemma createDynamicProgram_links:
  "createDynamicProgram env n g p sm0 = (Inr (Some program), sm)
     \<Longrightarrow> link_calls sm = Suc (link_calls sm0)"
  "createDynamicProgram env n g p sm0 = (Inr None, sm)
     \<Longrightarrow> link_calls sm = link_calls sm0 \<or> link_calls sm = Suc (link_calls sm0)"
  "createDynamicProgram env n g p sm0 = (Inl e, sm) \<Longrightarrow> link_calls sm = link_calls sm0"
  by (auto simp: createDynamicProgram_def createProgram_def compileShader_def Let_def
      getShaderCode_def
      split: prod.splits bool.splits if_splits option.splits sum.splits lookup.splits)

text \<open>
  \<open>createDynamicProgram\<close> raises exactly when the vertex shader is available and the
  projection name, in lower case, is the name of a member of \<open>Object.prototype\<close>.
\<close>

lemma createDynamicProgram_raises:
  "(\<exists>e. fst (createDynamicProgram env n g p sm) = Inl e)
     = (fst (compileShader env ''base-vertex'' sm) \<and> getProjection p = Inherited)"
  by (auto simp: createDynamicProgram_def getShaderCode_def Let_def
      split: prod.splits bool.splits option.splits sum.splits lookup.splits)

lemma checkResize_frame [simp]:
  "shaderManager (checkResize env c) = shaderManager c"
  "needsShaderUpdate (state (checkResize env c)) = needsShaderUpdate (state c)"
  "isRendering (state (checkResize env c)) = isRendering (state c)"
  "has_onError (state (checkResize env c)) = has_onError (state c)"
  "shaderProgramName (state (checkResize env c)) = shaderProgramName (state c)"
  "st_geometryType (state (checkResize env c)) = st_geometryType (state c)"
  "st_projectionMethod (state (checkResize env c)) = st_projectionMethod (state c)"
  "onError_calls (checkResize env c) = onError_calls c"
  "uncaught (checkResize env c) = uncaught c"
  "draw_calls (checkResize env c) = draw_calls c"
  "uploads (checkResize env c) = uploads c"
  "next_frame (checkResize env c) = next_frame c"
  "animationFrameId (state (checkResize env c)) = animationFrameId (state c)"
  by (simp_all add: checkResize_def mark_dirty_def)

lemma setUniforms_frame [simp]:
  "link_calls (shaderManager (setUniforms c)) = link_calls (shaderManager c)"
  "needsShaderUpdate (state (setUniforms c)) = needsShaderUpdate (state c)"
  "isRendering (state (setUniforms c)) = isRendering (state c)"
  "onError_calls (setUniforms c) = onError_calls c"
  "uncaught (setUniforms c) = uncaught c"
  by (simp_all add: setUniforms_def Let_def)

text \<open>
  A tick of a running loop with the rebuild flag set, by the three results of
  \<open>createDynamicProgram\<close>: the program, the null of a failure, an exception.
\<close>

lemma render_rebuild:
  assumes "needsShaderUpdate (state c)" "isRendering (state c)" "\<not> gl_contextLost env"
  shows "case createDynamicProgram env (shaderProgramName (state c)) (st_geometryType (state c))
               (st_projectionMethod (state c)) (shaderManager c) of
           (Inr (Some program), sm) \<Rightarrow>
             link_calls (shaderManager (render env ts c)) = Suc (link_calls (shaderManager c))
             \<and> \<not> needsShaderUpdate (state (render env ts c))
             \<and> isRendering (state (render env ts c))
             \<and> onError_calls (render env ts c) = onError_calls c
             \<and> uncaught (render env ts c) = uncaught c
         | (Inr None, sm) \<Rightarrow>
             \<not> isRendering (state (render env ts c))
             \<and> onError_calls (render env ts c)
                 = (if has_onError (state c) then Suc (onError_calls c) else onError_calls c)
             \<and> needsShaderUpdate (state (render env ts c))
             \<and> link_calls (shaderManager (render env ts c)) \<le> Suc (link_calls (shaderManager c))
             \<and> uncaught (render env ts c) = uncaught c
         | (Inl e, sm) \<Rightarrow>
             uncaught (render env ts c) = uncaught c @ [e]
             \<and> link_calls (shaderManager (render env ts c)) = link_calls (shaderManager c)
             \<and> needsShaderUpdate (state (render env ts c))
             \<and> isRendering (state (render env ts c))
             \<and> onError_calls (render env ts c) = onError_calls c
             \<and> animationFrameId (state (render env ts c)) = animationFrameId (state c)
             \<and> draw_calls (render env ts c) = draw_calls c
             \<and> uploads (render env ts c) = uploads c"
proof (cases "createDynamicProgram env (shaderProgramName (state c)) (st_geometryType (state c))
               (st_projectionMethod (state c)) (shaderManager c)")
  case (Pair r sm)
  show ?thesis
  proof (cases r)
    case (Inl e)
    with Pair createDynamicProgram_links(3)[of env _ _ _ "shaderManager c" e sm] assms
    show ?thesis
      by (simp add: render_def updateShaderIfNeeded_def Let_def)
  next
    case (Inr built)
    show ?thesis
    proof (cases built)
      case None
      have "link_calls sm \<le> Suc (link_calls (shaderManager c))"
        using createDynamicProgram_links(2)[OF Pair[unfolded Inr None]] by linarith
      with None Inr Pair assms
      show ?thesis
        by (auto simp: render_def updateShaderIfNeeded_def Let_def stop_def onError_def)
    next
      case (Some program)
      with Inr Pair createDynamicProgram_links(1)[of env _ _ _ "shaderManager c" program sm] assms
      show ?thesis
        by (simp add: render_def updateShaderIfNeeded_def Let_def)
    qed
  qed
qed


lemma all_dirty_eq:
  "all_dirty = state_keys @
       [''u_resolution'', ''u_primaryColor'', ''u_secondaryColor'', ''u_backgroundColor'',
        ''u_audioBass'', ''u_audioMid'', ''u_audioHigh'', ''u_dimension'', ''u_currentNoteFreq'',
        ''u_plasmaSpeed'', ''u_plasmaScale'', ''u_moireIntensity'', ''u_moireScale'']"
  by (simp add: all_dirty_def state_keys_def dirty_add_def)

lemma start_marks:
  "\<not> isRendering (state c) \<Longrightarrow> \<not> gl_contextLost env
     \<Longrightarrow> dirtyUniforms (state (start env c)) = all_dirty \<and> isRendering (state (start env c))"
  by (simp add: start_def)

lemma missing: "filter (\<lambda>u. u \<notin> set all_dirty) known_uniforms =
       [''u_time'', ''u_mouse'', ''u_morphFactor'', ''u_rotationSpeed'', ''u_universeModifier'',
        ''u_patternIntensity'', ''u_gridDensity'', ''u_glitchIntensity'']"
  by (simp add: all_dirty_eq state_keys_def known_uniforms_def switch_uniforms_def)

lemmas core_eval = good_gl_def fresh_core_def started_core_def new_HypercubeCore_def
  updateShaderIfNeeded_def createDynamicProgram_def compileShader_def createProgram_def
  getProjection_registered getShaderCode_def
  useProgram_def getAttributeLocation_def getUniformLocation_def DEFAULT_STATE_def Let_def
  start_def stop_def onError_def

lemma fresh_state:
  "isRendering (state fresh_core) = False"
  "needsShaderUpdate (state fresh_core) = False"
  "shaderProgramName (state fresh_core) = ''maleficarumViz''"
  "st_geometryType (state fresh_core) = ''hypercube''"
  "st_projectionMethod (state fresh_core) = ''perspective''"
  "has_onError (state fresh_core)"
  "canvasSize fresh_core = (800, 600)"
  "uploads fresh_core = []"
  "onError_calls fresh_core = 0"
  "uncaught fresh_core = []"
  "shaderManager fresh_core =
     \<lparr> compiledShaders = [''base-vertex'', ''fragment-adapted-base-perspective''],
       programs = [(''maleficarumViz'', \<lparr> prog_uniforms = (\<lambda>n. n \<in> set known_uniforms),
                        prog_has_a_position = True \<rparr>)],
       currentProgramName = Some ''maleficarumViz'', link_calls = 1 \<rparr>"
  by (simp_all add: core_eval)

lemma found_fresh:
  "getUniformLocation (useProgram ''maleficarumViz'' (shaderManager fresh_core)) n
     = (n \<in> set known_uniforms)"
  by (simp add: fresh_state useProgram_def getUniformLocation_def)

lemma render_steady:
  assumes "isRendering (state c)" "\<not> gl_contextLost env" "\<not> needsShaderUpdate (state c)"
    "canvasSize c = canvas_clientSize env"
  defines "sm \<equiv> useProgram (shaderProgramName (state c)) (shaderManager c)"
  defines "dirty \<equiv> (if getUniformLocation sm ''u_time'' then dirtyUniforms (state c)
                      else dirty_add ''u_time'' (dirtyUniforms (state c)))"
  shows "uploads (render env ts c) =
           uploads c @ (if getUniformLocation sm ''u_time'' then [''u_time''] else [])
           @ filter (\<lambda>n. n \<noteq> ''u_time'' \<and> getUniformLocation sm n \<and> uploadable (state c) n) dirty"
    and "dirtyUniforms (state (render env ts c)) =
           filter (\<lambda>n. n = ''u_time'' \<or> \<not> getUniformLocation sm n) dirty"
  using assms(1-4) unfolding sm_def dirty_def
  by (simp_all add: render_def checkResize_def updateShaderIfNeeded_def setUniforms_def Let_def
      uploadable_def)

lemma sent_eval:
  "filter (\<lambda>n. n \<noteq> ''u_time'' \<and> n \<in> set known_uniforms \<and> uploadable st n) all_dirty =
       [''u_resolution'', ''u_primaryColor'', ''u_secondaryColor'', ''u_backgroundColor'',
        ''u_audioBass'', ''u_audioMid'', ''u_audioHigh'', ''u_dimension'', ''u_currentNoteFreq'',
        ''u_plasmaSpeed'', ''u_plasmaScale'', ''u_moireIntensity'', ''u_moireScale'']"
  by (simp add: all_dirty_eq state_keys_def known_uniforms_def switch_uniforms_def uploadable_def)

lemma kept_eval:
  "filter (\<lambda>n. n = ''u_time'' \<or> n \<notin> set known_uniforms) all_dirty = state_keys"
  by (simp add: all_dirty_eq state_keys_def known_uniforms_def switch_uniforms_def)


lemma started_state:
  "isRendering (state started_core)"
  "\<not> needsShaderUpdate (state started_core)"
  "dirtyUniforms (state started_core) = all_dirty"
  "shaderProgramName (state started_core) = ''maleficarumViz''"
  "st_geometryType (state started_core) = ''hypercube''"
  "st_projectionMethod (state started_core) = ''perspective''"
  "has_onError (state started_core)"
  "canvasSize started_core = (800, 600)"
  "uploads started_core = []"
  "onError_calls started_core = 0"
  "uncaught started_core = []"
  "shaderManager started_core = shaderManager fresh_core"
  by (simp_all add: started_core_def start_def fresh_state good_gl_def)

lemma good_gl_simps:
  "\<not> gl_contextLost good_gl" "canvas_clientSize good_gl = (800, 600)"
  by (simp_all add: good_gl_def)

text \<open>
  A tick without a rebuild and without a resize leaves dirty exactly the names whose
  location is null (and \<open>u_time\<close> once it is in the set); when every dirty name resolves,
  the dirty set is empty afterwards.
\<close>

lemma render_empties_dirty:
  assumes "isRendering (state c)" "\<not> gl_contextLost env" "\<not> needsShaderUpdate (state c)"
    "canvasSize c = canvas_clientSize env"
    and "''u_time'' \<notin> set (dirtyUniforms (state c))"
    and "getUniformLocation (useProgram (shaderProgramName (state c)) (shaderManager c)) ''u_time''"
    and "\<forall>n \<in> set (dirtyUniforms (state c)).
           getUniformLocation (useProgram (shaderProgramName (state c)) (shaderManager c)) n"
  shows "dirtyUniforms (state (render env ts c)) = []"
  using render_steady(2)[OF assms(1-4), of ts] assms(5-7)
  by (auto simp: filter_empty_conv)

lemma render_keeps_unresolved:
  assumes "isRendering (state c)" "\<not> gl_contextLost env" "\<not> needsShaderUpdate (state c)"
    "canvasSize c = canvas_clientSize env"
    and "n \<in> set (dirtyUniforms (state c))"
    and "\<not> getUniformLocation (useProgram (shaderProgramName (state c)) (shaderManager c)) n"
  shows "n \<in> set (dirtyUniforms (state (render env ts c)))"
  using render_steady(2)[OF assms(1-4), of ts] assms(5-6)
  by (auto simp: dirty_add_def)

text \<open>
  Claim C3 says that after \<open>start()\<close> every known uniform name is in the dirty set. The
  dirty set that \<open>start()\<close> installs holds the keys of \<open>DEFAULT_STATE\<close>, which carry no
  \<open>u_\<close> prefix, and thirteen added names: of the uniforms that \<open>_setUniforms\<close> knows, eight
  are missing, among them \<open>u_morphFactor\<close>. In a program where all of them resolve, the
  first tick after \<open>start()\<close> uploads the time and the thirteen, not the other seven, and
  the keys of the state stay dirty for good.
\<close>

theorem start_misses_known_uniforms:
  "isRendering (state started_core)
   \<and> dirtyUniforms (state started_core) = all_dirty
   \<and> filter (\<lambda>u. u \<notin> set (dirtyUniforms (state started_core))) known_uniforms =
       [''u_time'', ''u_mouse'', ''u_morphFactor'', ''u_rotationSpeed'', ''u_universeModifier'',
        ''u_patternIntensity'', ''u_gridDensity'', ''u_glitchIntensity'']
   \<and> getUniformLocation (shaderManager started_core) ''u_morphFactor''
   \<and> uploads (render good_gl 1016 started_core) =
       [''u_time'', ''u_resolution'', ''u_primaryColor'', ''u_secondaryColor'', ''u_backgroundColor'',
        ''u_audioBass'', ''u_audioMid'', ''u_audioHigh'', ''u_dimension'', ''u_currentNoteFreq'',
        ''u_plasmaSpeed'', ''u_plasmaScale'', ''u_moireIntensity'', ''u_moireScale'']
   \<and> dirtyUniforms (state (render good_gl 1016 started_core)) = state_keys"
proof -
  have g: "getUniformLocation (shaderManager started_core) ''u_morphFactor''"
    by (simp add: started_state fresh_state getUniformLocation_def known_uniforms_def
        switch_uniforms_def)
  have t: "''u_time'' \<in> set known_uniforms" by (simp add: known_uniforms_def)
  have h: "isRendering (state started_core)" "\<not> gl_contextLost good_gl"
    "\<not> needsShaderUpdate (state started_core)"
    "canvasSize started_core = canvas_clientSize good_gl"
    by (simp_all add: started_state good_gl_simps)
  note r = render_steady[OF h, of 1016]
  have u: "uploads (render good_gl 1016 started_core) =
       [''u_time'', ''u_resolution'', ''u_primaryColor'', ''u_secondaryColor'', ''u_backgroundColor'',
        ''u_audioBass'', ''u_audioMid'', ''u_audioHigh'', ''u_dimension'', ''u_currentNoteFreq'',
        ''u_plasmaSpeed'', ''u_plasmaScale'', ''u_moireIntensity'', ''u_moireScale'']"
    using r(1) t by (simp add: started_state found_fresh sent_eval)
  have k: "dirtyUniforms (state (render good_gl 1016 started_core)) = state_keys"
    using r(2) t by (simp add: started_state found_fresh kept_eval)
  show ?thesis using g u k missing by (simp add: started_state)
qed


text \<open>
  \<open>updateParameters\<close> with a \<open>geometryType\<close> or \<open>projectionMethod\<close> different from the
  current one sets \<open>needsShaderUpdate\<close>. When the lookup of the projection name does not
  end at a member of \<open>Object.prototype\<close>, the next tick of a running loop with a live
  context builds the program once and no exception leaves it: when the build succeeds,
  exactly one link has been performed, the flag is cleared and the loop goes on without an
  error callback; when it fails, the loop is halted and the error callback, if registered,
  invoked once (the flag then stays set, and at most one link was attempted).
\<close>

lemma rebuild_relinks_once:
  assumes "(P_geometryType g \<in> set newParams \<and> g \<noteq> st_geometryType (state c))
         \<or> (P_projectionMethod g \<in> set newParams \<and> g \<noteq> st_projectionMethod (state c))"
    and "isRendering (state c)" and "\<not> gl_contextLost env"
    and "getProjection (st_projectionMethod (state (updateParameters newParams c))) \<noteq> Inherited"
  shows "needsShaderUpdate (state (updateParameters newParams c))
    \<and> (let c1 = updateParameters newParams c; c2 = render env timestamp c1 in
        uncaught c2 = uncaught c1
        \<and> (case fst (createDynamicProgram env (shaderProgramName (state c1))
                   (st_geometryType (state c1)) (st_projectionMethod (state c1))
                   (shaderManager c1)) of
             Inr (Some program) \<Rightarrow>
               link_calls (shaderManager c2) = Suc (link_calls (shaderManager c1))
               \<and> \<not> needsShaderUpdate (state c2)
               \<and> isRendering (state c2)
               \<and> onError_calls c2 = onError_calls c1
           | Inr None \<Rightarrow>
               \<not> isRendering (state c2)
               \<and> onError_calls c2
                   = (if has_onError (state c1) then Suc (onError_calls c1) else onError_calls c1)
               \<and> needsShaderUpdate (state c2)
               \<and> link_calls (shaderManager c2) \<le> Suc (link_calls (shaderManager c1))
           | Inl e \<Rightarrow> False))"
proof -
  let ?c1 = "updateParameters newParams c"
  let ?r = "createDynamicProgram env (shaderProgramName (state ?c1))
              (st_geometryType (state ?c1)) (st_projectionMethod (state ?c1)) (shaderManager ?c1)"
  have f: "needsShaderUpdate (state ?c1)" by (rule updateParameters_flag[OF assms(1)])
  have r: "isRendering (state ?c1)" using assms(2) by (simp add: updateParameters_frame)
  have n: "\<And>e. fst ?r \<noteq> Inl e"
    using createDynamicProgram_raises[of env _ _ "st_projectionMethod (state ?c1)"
        "shaderManager ?c1"] assms(4)
    by blast
  from render_rebuild[OF f r assms(3), of timestamp] f n show ?thesis
    by (cases ?r) (auto simp: Let_def split: sum.splits option.splits)
qed

lemma rebuild_good:
  "createDynamicProgram good_gl ''maleficarumViz'' g ''perspective'' (shaderManager fresh_core)
     = (Inr (Some \<lparr> prog_uniforms = (\<lambda>n. n \<in> set known_uniforms), prog_has_a_position = True \<rparr>),
        (shaderManager fresh_core)\<lparr>link_calls := 2\<rparr>)"
  by (simp add: fresh_state createDynamicProgram_def compileShader_def createProgram_def good_gl_def
      getProjection_registered getShaderCode_def Let_def)

lemma rebuild_failing:
  "fst (createDynamicProgram failing_gl ''maleficarumViz'' g ''perspective'' (shaderManager fresh_core))
     = Inr None"
  by (simp add: fresh_state createDynamicProgram_def compileShader_def createProgram_def good_gl_def
      getProjection_registered getShaderCode_def failing_gl_def Let_def)

lemma hypersphere_update:
  "st_geometryType (state hypersphere_core) = ''hypersphere''"
  "st_projectionMethod (state hypersphere_core) = ''perspective''"
  "shaderProgramName (state hypersphere_core) = ''maleficarumViz''"
  "onError_calls hypersphere_core = 0"
  "has_onError (state hypersphere_core)"
  "shaderManager hypersphere_core = shaderManager fresh_core"
  by (simp_all add: hypersphere_core_def updateParameters_def started_state)

text \<open>
  The example of the specification, \<open>updateParameters({geometryType: 'hypersphere'})\<close> on the
  started engine: the flag is set; the next tick performs the second link of the engine's
  life and clears the flag; where linking fails, it halts the loop and invokes the error
  callback once.
\<close>

lemma rebuild_hypersphere:
  "needsShaderUpdate (state hypersphere_core)
   \<and> link_calls (shaderManager (render good_gl 1016 hypersphere_core)) = 2
   \<and> \<not> needsShaderUpdate (state (render good_gl 1016 hypersphere_core))
   \<and> isRendering (state (render good_gl 1016 hypersphere_core))
   \<and> \<not> isRendering (state (render failing_gl 1016 hypersphere_core))
   \<and> onError_calls (render failing_gl 1016 hypersphere_core) = 1"
proof -
  have h: "(P_geometryType ''hypersphere'' \<in> set [P_geometryType ''hypersphere'']
             \<and> ''hypersphere'' \<noteq> st_geometryType (state started_core))
           \<or> (P_projectionMethod ''hypersphere'' \<in> set [P_geometryType ''hypersphere'']
             \<and> ''hypersphere'' \<noteq> st_projectionMethod (state started_core))"
    by (simp add: started_state)
  have l: "\<not> gl_contextLost good_gl" "\<not> gl_contextLost failing_gl"
    by (simp_all add: good_gl_def failing_gl_def)
  have p: "getProjection (st_projectionMethod
             (state (updateParameters [P_geometryType ''hypersphere''] started_core))) \<noteq> Inherited"
    using hypersphere_update(2) by (simp add: hypersphere_core_def getProjection_registered)
  have fl: "link_calls (shaderManager fresh_core) = 1" by (simp add: fresh_state)
  note a = rebuild_relinks_once[OF h started_state(1) l(1) p, of 1016,
      folded hypersphere_core_def]
  note b = rebuild_relinks_once[OF h started_state(1) l(2) p, of 1016,
      folded hypersphere_core_def]
  from a have "needsShaderUpdate (state hypersphere_core)
   \<and> link_calls (shaderManager (render good_gl 1016 hypersphere_core)) = 2
   \<and> \<not> needsShaderUpdate (state (render good_gl 1016 hypersphere_core))
   \<and> isRendering (state (render good_gl 1016 hypersphere_core))"
    by (simp add: Let_def hypersphere_update rebuild_good fl)
  moreover from b have "\<not> isRendering (state (render failing_gl 1016 hypersphere_core))
   \<and> onError_calls (render failing_gl 1016 hypersphere_core) = 1"
    by (simp add: Let_def hypersphere_update rebuild_failing)
  ultimately show ?thesis by simp
qed

lemma constructor_update:
  "needsShaderUpdate (state constructor_core)"
  "isRendering (state constructor_core)"
  "st_geometryType (state constructor_core) = ''hypercube''"
  "st_projectionMethod (state constructor_core) = ''constructor''"
  "shaderProgramName (state constructor_core) = ''maleficarumViz''"
  "onError_calls constructor_core = 0"
  "uncaught constructor_core = []"
  "has_onError (state constructor_core)"
  "shaderManager constructor_core = shaderManager fresh_core"
  "animationFrameId (state constructor_core) = animationFrameId (state started_core)"
  "draw_calls constructor_core = draw_calls started_core"
  by (simp_all add: constructor_core_def updateParameters_def started_state
      set_uniform_property_def mark_dirty_def)

lemma constructor_raises:
  "createDynamicProgram good_gl ''maleficarumViz'' ''hypercube'' ''constructor''
     (shaderManager fresh_core) = (Inl TypeError, shaderManager fresh_core)"
  by (simp add: fresh_state createDynamicProgram_def compileShader_def
      getProjection_inherited getShaderCode_def)

text \<open>
  Claim C5 says that after \<open>updateParameters\<close> with a different \<open>projectionMethod\<close> the
  next tick performs exactly one relink and clears the flag, or halts the loop and invokes
  the error callback. \<open>getProjection\<close> falls back to the default provider for a name that
  is not registered, but its lookup in a plain object finds the inherited member for the
  name \<open>'constructor'\<close>, and \<open>getShaderCode\<close> of that member is no function. After
  \<open>updateParameters({projectionMethod: 'constructor'})\<close> on the started engine the flag is
  set, and the next tick ends in an uncaught \<open>TypeError\<close>: no link is performed, the flag
  stays set, the loop still counts as running, the error callback is not invoked, no
  frame is drawn and no further frame is requested.
\<close>

theorem inherited_projection_name_raises:
  "needsShaderUpdate (state constructor_core)
   \<and> uncaught (render good_gl 1016 constructor_core) = [TypeError]
   \<and> link_calls (shaderManager (render good_gl 1016 constructor_core))
       = link_calls (shaderManager constructor_core)
   \<and> needsShaderUpdate (state (render good_gl 1016 constructor_core))
   \<and> isRendering (state (render good_gl 1016 constructor_core))
   \<and> onError_calls (render good_gl 1016 constructor_core) = 0
   \<and> draw_calls (render good_gl 1016 constructor_core) = draw_calls constructor_core
   \<and> animationFrameId (state (render good_gl 1016 constructor_core))
       = animationFrameId (state constructor_core)"
proof -
  have l: "\<not> gl_contextLost good_gl" by (simp add: good_gl_def)
  from render_rebuild[OF constructor_update(1) constructor_update(2) l, of 1016]
  show ?thesis
    by (simp add: constructor_update constructor_raises)
qed


end
